theory Spec2Isabelle
  imports Main
begin

section \<open>Data model of the MCP sample client\<close>

text \<open>
  The development embeds \<^verbatim>\<open>sample-mcp-clients/client.py\<close>: the class \<^verbatim>\<open>MCPClient\<close>
  with \<^verbatim>\<open>connect_to_server\<close>, \<^verbatim>\<open>process_query\<close>, \<^verbatim>\<open>chat_loop\<close>, \<^verbatim>\<open>cleanup\<close>,
  and the coroutine \<^verbatim>\<open>main\<close>.

  Python exceptions are values: a class and the text that \<^verbatim>\<open>str(e)\<close> gives. The handler
  of the chat loop is \<^verbatim>\<open>except Exception\<close>, so the model keeps apart the classes that
  derive from \<^verbatim>\<open>Exception\<close> and those that derive from \<^verbatim>\<open>BaseException\<close> only.
\<close>

datatype exn_class =
    ValueError | SyntaxError | TypeError | IndexError | AttributeError
  | UnboundLocalError | EOFError | OSError | McpError | APIError
  | OtherException string
  | KeyboardInterrupt | SystemExit | CancelledError

datatype exn = Exn exn_class string

fun exn_cls :: "exn \<Rightarrow> exn_class" where
  "exn_cls (Exn c m) = c"

fun str_exn :: "exn \<Rightarrow> string" where
  "str_exn (Exn c m) = m"

fun is_Exception_class :: "exn_class \<Rightarrow> bool" where
  "is_Exception_class KeyboardInterrupt = False"
| "is_Exception_class SystemExit = False"
| "is_Exception_class CancelledError = False"
| "is_Exception_class c = True"

definition is_Exception :: "exn \<Rightarrow> bool" where
  "is_Exception e = is_Exception_class (exn_cls e)"

text \<open>
  The lines read from standard input are lists of Unicode code points, since
  \<^verbatim>\<open>strip\<close> and \<^verbatim>\<open>lower\<close> look into them; \<open>py\<close> writes such a string from a
  literal. Strings the client only passes on or compares as a whole stay \<open>string\<close>.
\<close>

type_synonym pystr = "nat list"

definition py :: "string \<Rightarrow> pystr" where
  "py s = map of_char s"

text \<open>
  Values of Python literals and of JSON schemas: what \<^verbatim>\<open>ast.literal_eval\<close> returns and
  what a tool's \<^verbatim>\<open>inputSchema\<close> holds.
\<close>

datatype pyvalue =
    PyNone
  | PyBool bool
  | PyInt int
  | PyStr string
  | PyList "pyvalue list"
  | PyDict "(pyvalue \<times> pyvalue) list"

text \<open>A tool as the session lists it (\<^verbatim>\<open>mcp.types.Tool\<close>).\<close>

record tool =
  name :: string
  description :: "string option"
  inputSchema :: pyvalue

text \<open>An entry of the tool array handed to the model endpoint.\<close>

record function_tool =
  ft_type :: string
  ft_name :: string
  ft_description :: "string option"
  ft_parameters :: pyvalue

record message =
  role :: string
  content :: pystr

text \<open>
  Content blocks of a tool result. Only a text block has the attribute \<^verbatim>\<open>text\<close>;
  reading it from any other block raises \<^verbatim>\<open>AttributeError\<close>. \<open>ImageContent\<close> carries
  its data, \<open>OtherContent\<close> the name of its class.
\<close>

datatype content_block = TextContent string | ImageContent string | OtherContent string

record call_tool_result =
  ctr_content :: "content_block list"
  isError :: bool

text \<open>
  Output items of a model response. \<^verbatim>\<open>process_query\<close> tests the first item for
  truthiness and then reads its \<^verbatim>\<open>type\<close>; \<open>FalsyItem\<close> stands for a first item that
  is falsy (\<^verbatim>\<open>None\<close>), the only way into the \<^verbatim>\<open>else\<close> branch of the source.
  \<open>FunctionCall name arguments\<close> is an item whose \<^verbatim>\<open>type\<close> is \<^verbatim>\<open>function_call\<close>,
  \<open>Message parts\<close> one whose \<^verbatim>\<open>type\<close> is \<^verbatim>\<open>message\<close>, and \<open>OtherItem cls ty\<close> a truthy
  object of class \<open>cls\<close> whose \<^verbatim>\<open>type\<close> attribute is \<open>ty\<close> and which has none of the
  attributes \<^verbatim>\<open>name\<close>, \<^verbatim>\<open>arguments\<close>, \<^verbatim>\<open>content\<close>.
\<close>

datatype output_part = OutputText string | Refusal string

datatype output_item =
    FunctionCall string string
  | Message "output_part list"
  | OtherItem string string
  | FalsyItem

fun item_type :: "output_item \<Rightarrow> string" where
  "item_type (FunctionCall _ _) = ''function_call''"
| "item_type (Message _) = ''message''"
| "item_type (OtherItem cls ty) = ty"
| "item_type FalsyItem = []"

fun item_class :: "output_item \<Rightarrow> string" where
  "item_class (FunctionCall _ _) = ''ResponseFunctionToolCall''"
| "item_class (Message _) = ''ResponseOutputMessage''"
| "item_class (OtherItem cls ty) = cls"
| "item_class FalsyItem = ''NoneType''"

record response =
  resp_output :: "output_item list"

record server_params =
  command :: string
  args :: "string list"
  env :: "(string \<times> string) list option"

text \<open>
  Everything outside the client is a parameter: the stdio transport and the session of
  the \<^verbatim>\<open>mcp\<close> package, the model endpoint, and \<^verbatim>\<open>ast.literal_eval\<close>. Each operation
  reads and updates a world \<open>'w\<close>, so that answers may differ from call to call, and
  either returns or raises. Two things of the interpreter are parameters as well:
  \<^verbatim>\<open>str.lower\<close>, whose case table is the Unicode database's, and the wording of the
  \<^verbatim>\<open>UnboundLocalError\<close> for the local \<^verbatim>\<open>final_message\<close>, which differs between
  versions of CPython.
\<close>

record 'w externals =
  stdio_client :: "server_params \<Rightarrow> 'w \<Rightarrow> exn option \<times> 'w"
  ClientSession :: "'w \<Rightarrow> exn option \<times> 'w"
  initialize :: "'w \<Rightarrow> exn option \<times> 'w"
  list_tools :: "'w \<Rightarrow> (exn + tool list) \<times> 'w"
  call_tool :: "string \<Rightarrow> pyvalue \<Rightarrow> 'w \<Rightarrow> (exn + call_tool_result) \<times> 'w"
  responses_create :: "message list \<Rightarrow> function_tool list \<Rightarrow> 'w \<Rightarrow> (exn + response) \<times> 'w"
  literal_eval :: "string \<Rightarrow> exn + pyvalue"
  lower :: "pystr \<Rightarrow> pystr"
  unbound_local_text :: string

text \<open>
  What the client does to the outside is logged in order. \<open>Spawn\<close> is the attempt to
  start the child process; \<open>Enter r\<close> is logged once the context manager of \<open>r\<close> has been
  entered and its exit callback pushed on the exit stack; \<open>Exit r\<close> is the run of that
  callback; \<open>Aclose\<close> is the call of \<^verbatim>\<open>exit_stack.aclose()\<close>.
\<close>

datatype resource = Transport | Session

datatype event =
    Spawn string "string list"
  | Enter resource
  | Initialize
  | ListTools
  | CallTool string pyvalue
  | Create "message list" "function_tool list"
  | Prompt string
  | Print string
  | PrintTools "string list"
  | Aclose
  | Exit resource

record 'w state =
  world :: 'w
  stdin :: "pystr list"
  trace :: "event list"
  session :: bool
  exit_stack :: "resource list"

definition log :: "event \<Rightarrow> 'w state \<Rightarrow> 'w state" where
  "log e st = st\<lparr>trace := trace st @ [e]\<rparr>"

section \<open>String operations\<close>

definition endswith :: "string \<Rightarrow> string \<Rightarrow> bool" where
  "endswith s suf = (length suf \<le> length s \<and> drop (length s - length suf) s = suf)"

text \<open>
  \<^verbatim>\<open>str.strip()\<close> removes the code points for which \<^verbatim>\<open>str.isspace()\<close> holds from
  both ends: the ASCII controls U+0009 to U+000D and U+001C to U+001F, the space, U+0085,
  U+00A0, U+1680, U+2000 to U+200A, U+2028, U+2029, U+202F, U+205F and U+3000.
\<close>

definition is_space :: "nat \<Rightarrow> bool" where
  "is_space n =
     ((9 \<le> n \<and> n \<le> 13) \<or> (28 \<le> n \<and> n \<le> 32) \<or> n = 0x85 \<or> n = 0xA0 \<or> n = 0x1680 \<or>
      (0x2000 \<le> n \<and> n \<le> 0x200A) \<or> n = 0x2028 \<or> n = 0x2029 \<or> n = 0x202F \<or>
      n = 0x205F \<or> n = 0x3000)"

definition strip :: "pystr \<Rightarrow> pystr" where
  "strip s = rev (dropWhile is_space (rev (dropWhile is_space s)))"

text \<open>The text of the \<^verbatim>\<open>AttributeError\<close> for a missing attribute.\<close>

definition quote :: char where
  "quote = CHR 0x27"

definition no_attribute :: "string \<Rightarrow> string \<Rightarrow> exn" where
  "no_attribute cls attr =
     Exn AttributeError
       (quote # cls @ quote # '' object has no attribute '' @ quote # attr @ [quote])"

section \<open>The tool schema adapter\<close>

text \<open>The list comprehension of \<^verbatim>\<open>process_query\<close> that builds \<^verbatim>\<open>available_tools\<close>.\<close>

definition available_tools :: "tool list \<Rightarrow> function_tool list" where
  "available_tools tools =
     map (\<lambda>t. \<lparr>ft_type = ''function'', ft_name = name t,
               ft_description = description t, ft_parameters = inputSchema t\<rparr>) tools"

section \<open>Connecting\<close>

text \<open>
  \<^verbatim>\<open>exit_stack.enter_async_context(cm)\<close> enters \<open>cm\<close>; when that raises nothing is
  pushed, otherwise the exit callback goes on top of the stack.
\<close>

definition enter_stdio_client :: "'w externals \<Rightarrow> server_params \<Rightarrow> 'w state \<Rightarrow> exn option \<times> 'w state" where
  "enter_stdio_client ext params st =
     (let st1 = log (Spawn (command params) (args params)) st in
      case stdio_client ext params (world st1) of
        (Some e, w) \<Rightarrow> (Some e, st1\<lparr>world := w\<rparr>)
      | (None, w) \<Rightarrow>
          (None, log (Enter Transport) (st1\<lparr>world := w, exit_stack := Transport # exit_stack st1\<rparr>)))"

definition enter_ClientSession :: "'w externals \<Rightarrow> 'w state \<Rightarrow> exn option \<times> 'w state" where
  "enter_ClientSession ext st =
     (case ClientSession ext (world st) of
        (Some e, w) \<Rightarrow> (Some e, st\<lparr>world := w\<rparr>)
      | (None, w) \<Rightarrow>
          (None, log (Enter Session) (st\<lparr>world := w, session := True, exit_stack := Session # exit_stack st\<rparr>)))"

definition session_initialize :: "'w externals \<Rightarrow> 'w state \<Rightarrow> exn option \<times> 'w state" where
  "session_initialize ext st =
     (let st1 = log Initialize st in
      case initialize ext (world st1) of (r, w) \<Rightarrow> (r, st1\<lparr>world := w\<rparr>))"

definition session_list_tools :: "'w externals \<Rightarrow> 'w state \<Rightarrow> (exn + tool list) \<times> 'w state" where
  "session_list_tools ext st =
     (if \<not> session st then
        (Inl (no_attribute ''NoneType'' ''list_tools''), st)
      else
        let st1 = log ListTools st in
        case list_tools ext (world st1) of (r, w) \<Rightarrow> (r, st1\<lparr>world := w\<rparr>))"

definition session_call_tool ::
  "'w externals \<Rightarrow> string \<Rightarrow> pyvalue \<Rightarrow> 'w state \<Rightarrow> (exn + call_tool_result) \<times> 'w state" where
  "session_call_tool ext tool_name tool_args st =
     (if \<not> session st then
        (Inl (no_attribute ''NoneType'' ''call_tool''), st)
      else
        let st1 = log (CallTool tool_name tool_args) st in
        case call_tool ext tool_name tool_args (world st1) of (r, w) \<Rightarrow> (r, st1\<lparr>world := w\<rparr>))"

definition connect_to_server :: "'w externals \<Rightarrow> string \<Rightarrow> 'w state \<Rightarrow> exn option \<times> 'w state" where
  "connect_to_server ext server_script_path st =
     (let is_python = endswith server_script_path ''.py'';
          is_js = endswith server_script_path ''.js''
      in
        if \<not> (is_python \<or> is_js) then
          (Some (Exn ValueError ''Server script must be a .py or .js file''), st)
        else
          let command = (if is_python then ''python'' else ''node'');
              params = \<lparr>command = command, args = [server_script_path], env = None\<rparr>
          in
            case enter_stdio_client ext params st of
              (Some e, st1) \<Rightarrow> (Some e, st1)
            | (None, st1) \<Rightarrow>
                (case enter_ClientSession ext st1 of
                   (Some e, st2) \<Rightarrow> (Some e, st2)
                 | (None, st2) \<Rightarrow>
                     (case session_initialize ext st2 of
                        (Some e, st3) \<Rightarrow> (Some e, st3)
                      | (None, st3) \<Rightarrow>
                          (case session_list_tools ext st3 of
                             (Inl e, st4) \<Rightarrow> (Some e, st4)
                           | (Inr tools, st4) \<Rightarrow>
                               (None, log (PrintTools (map name tools)) st4)))))"

section \<open>One turn\<close>

text \<open>\<^verbatim>\<open>xs[0].text\<close> on the content of a tool result and on the content of a message.\<close>

definition first_block_text :: "content_block list \<Rightarrow> exn + string" where
  "first_block_text blocks =
     (case blocks of
        [] \<Rightarrow> Inl (Exn IndexError ''list index out of range'')
      | TextContent t # _ \<Rightarrow> Inr t
      | ImageContent _ # _ \<Rightarrow> Inl (no_attribute ''ImageContent'' ''text'')
      | OtherContent cls # _ \<Rightarrow> Inl (no_attribute cls ''text''))"

definition first_part_text :: "output_part list \<Rightarrow> exn + string" where
  "first_part_text parts =
     (case parts of
        [] \<Rightarrow> Inl (Exn IndexError ''list index out of range'')
      | OutputText t # _ \<Rightarrow> Inr t
      | Refusal _ # _ \<Rightarrow> Inl (no_attribute ''ResponseOutputRefusal'' ''text''))"

definition model_create ::
  "'w externals \<Rightarrow> message list \<Rightarrow> function_tool list \<Rightarrow> 'w state \<Rightarrow> (exn + response) \<times> 'w state" where
  "model_create ext messages tools st =
     (let st1 = log (Create messages tools) st in
      case responses_create ext messages tools (world st1) of (r, w) \<Rightarrow> (r, st1\<lparr>world := w\<rparr>))"

text \<open>
  \<^verbatim>\<open>process_query\<close>. The first output item is tested for truthiness, then its
  \<^verbatim>\<open>type\<close> is compared with \<^verbatim>\<open>function_call\<close> and with \<^verbatim>\<open>message\<close>. The local
  \<^verbatim>\<open>final_message\<close> is bound in those two branches and in the \<^verbatim>\<open>else\<close> of the
  truthiness test; a truthy item of any other type reaches \<^verbatim>\<open>return final_message\<close>
  with the local unbound. \<^verbatim>\<open>response.output[0]\<close> raises \<^verbatim>\<open>IndexError\<close> on an empty
  list.
\<close>

definition user_messages :: "pystr \<Rightarrow> message list" where
  "user_messages query = [\<lparr>role = ''user'', content = query\<rparr>]"

definition unbound_final_message :: "'w externals \<Rightarrow> exn" where
  "unbound_final_message ext = Exn UnboundLocalError (unbound_local_text ext)"

definition process_query :: "'w externals \<Rightarrow> pystr \<Rightarrow> 'w state \<Rightarrow> (exn + string) \<times> 'w state" where
  "process_query ext query st =
     (let messages = user_messages query in
      case session_list_tools ext st of
        (Inl e, st1) \<Rightarrow> (Inl e, st1)
      | (Inr tools, st1) \<Rightarrow>
          (case model_create ext messages (available_tools tools) st1 of
             (Inl e, st2) \<Rightarrow> (Inl e, st2)
           | (Inr resp, st2) \<Rightarrow>
               (case resp_output resp of
                  [] \<Rightarrow> (Inl (Exn IndexError ''list index out of range''), st2)
                | item # _ \<Rightarrow>
                    if item = FalsyItem then (Inr ''No response generated.'', st2)
                    else if item_type item = ''function_call'' then
                      (case item of
                         FunctionCall tool_name arguments \<Rightarrow>
                           (case literal_eval ext arguments of
                              Inl e \<Rightarrow> (Inl e, st2)
                            | Inr tool_args \<Rightarrow>
                                (case session_call_tool ext tool_name tool_args st2 of
                                   (Inl e, st3) \<Rightarrow> (Inl e, st3)
                                 | (Inr tool_call, st3) \<Rightarrow>
                                     (first_block_text (ctr_content tool_call), st3)))
                       | _ \<Rightarrow> (Inl (no_attribute (item_class item) ''name''), st2))
                    else if item_type item = ''message'' then
                      (case item of
                         Message parts \<Rightarrow> (first_part_text parts, st2)
                       | _ \<Rightarrow> (Inl (no_attribute (item_class item) ''content''), st2))
                    else (Inl (unbound_final_message ext), st2))))"

section \<open>The chat loop\<close>

definition newline :: char where
  "newline = CHR 0x0A"

definition tab :: char where
  "tab = CHR 0x09"

text \<open>
  \<^verbatim>\<open>input(prompt)\<close> writes the prompt and reads one line of standard input; at the end
  of the input it raises \<^verbatim>\<open>EOFError\<close>.
\<close>

definition input_line :: "string \<Rightarrow> 'w state \<Rightarrow> (exn + pystr) \<times> 'w state" where
  "input_line prompt st =
     (let st1 = log (Prompt prompt) st in
      case stdin st1 of
        [] \<Rightarrow> (Inl (Exn EOFError ''EOF when reading a line''), st1)
      | l # ls \<Rightarrow> (Inr l, st1\<lparr>stdin := ls\<rparr>))"

datatype flow = Continue | Break | Raise exn

text \<open>The handler \<^verbatim>\<open>except Exception as e: print(f"\nError: {str(e)}")\<close>.\<close>

definition error_text :: "exn \<Rightarrow> string" where
  "error_text e = newline # ''Error: '' @ str_exn e"

definition except_Exception :: "exn \<Rightarrow> 'w state \<Rightarrow> flow \<times> 'w state" where
  "except_Exception e st =
     (if is_Exception e then (Continue, log (Print (error_text e)) st) else (Raise e, st))"

definition chatbot_text :: "string \<Rightarrow> string" where
  "chatbot_text r = ''ChatBot:'' @ [newline, tab] @ r @ [newline] @ replicate 60 (CHR ''='')"

text \<open>The body of \<^verbatim>\<open>while True\<close>: one pass of the \<^verbatim>\<open>try\<close> statement.\<close>

definition query_prompt :: string where
  "query_prompt = newline # ''Query:'' @ [newline, tab]"

definition loop_body :: "'w externals \<Rightarrow> 'w state \<Rightarrow> flow \<times> 'w state" where
  "loop_body ext st =
     (case input_line query_prompt st of
        (Inl e, st1) \<Rightarrow> except_Exception e st1
      | (Inr line, st1) \<Rightarrow>
          (let query = strip line in
           if lower ext query = py ''quit'' then (Break, st1)
           else
             case process_query ext query st1 of
               (Inl e, st2) \<Rightarrow> except_Exception e st2
             | (Inr r, st2) \<Rightarrow> (Continue, log (Print (chatbot_text r)) st2)))"

text \<open>
  The loop has no bound: it ends at \<^verbatim>\<open>quit\<close> or at an exception the handler does not
  catch. A run that never leaves it has the value \<open>None\<close>.
\<close>

partial_function (option) while_True :: "'w externals \<Rightarrow> 'w state \<Rightarrow> (exn option \<times> 'w state) option" where
  "while_True ext st =
     (case loop_body ext st of
        (Continue, st1) \<Rightarrow> while_True ext st1
      | (Break, st1) \<Rightarrow> Some (None, st1)
      | (Raise e, st1) \<Rightarrow> Some (Some e, st1))"

definition chat_loop :: "'w externals \<Rightarrow> 'w state \<Rightarrow> (exn option \<times> 'w state) option" where
  "chat_loop ext st =
     while_True ext
       (log (Print ''Type your queries or 'quit' to exit.'')
         (log (Print (newline # ''MCP Client Started!'')) st))"

section \<open>Cleanup and main\<close>

text \<open>
  \<^verbatim>\<open>cleanup\<close> calls \<^verbatim>\<open>exit_stack.aclose()\<close>, which pops the callbacks and runs them,
  last pushed first, and leaves the stack empty.
\<close>

definition cleanup :: "'w state \<Rightarrow> 'w state" where
  "cleanup st =
     (st\<lparr>trace := trace st @ Aclose # map Exit (exit_stack st), exit_stack := []\<rparr>)"

text \<open>
  \<^verbatim>\<open>main\<close>: the usage check leaves with \<^verbatim>\<open>sys.exit(1)\<close> before the client exists;
  otherwise \<^verbatim>\<open>MCPClient()\<close> starts with no session and an empty exit stack, and the
  \<^verbatim>\<open>finally\<close> clause runs \<^verbatim>\<open>cleanup\<close> whether the \<^verbatim>\<open>try\<close> block returned or raised.
\<close>

definition MCPClient_init :: "'w state \<Rightarrow> 'w state" where
  "MCPClient_init st = st\<lparr>session := False, exit_stack := []\<rparr>"

definition main :: "'w externals \<Rightarrow> string list \<Rightarrow> 'w state \<Rightarrow> (exn option \<times> 'w state) option" where
  "main ext argv st =
     (if length argv < 2 then
        Some (Some (Exn SystemExit ''1''),
              log (Print ''Usage: python client.py <path_to_server_script>'') st)
      else
        case connect_to_server ext (argv ! 1) (MCPClient_init st) of
          (Some e, st1) \<Rightarrow> Some (Some e, cleanup st1)
        | (None, st1) \<Rightarrow>
            (case chat_loop ext st1 of
               None \<Rightarrow> None
             | Some (r, st2) \<Rightarrow> Some (r, cleanup st2)))"

text \<open>A run of the program: \<^verbatim>\<open>asyncio.run(main())\<close> from a process that has done nothing yet.\<close>

definition run :: "'w externals \<Rightarrow> string list \<Rightarrow> pystr list \<Rightarrow> 'w \<Rightarrow> (exn option \<times> 'w state) option" where
  "run ext argv lines w =
     main ext argv \<lparr>world = w, stdin = lines, trace = [], session = False, exit_stack = []\<rparr>"

declare while_True.simps [code]

section \<open>Observing a trace\<close>

text \<open>The spawn attempts of a trace, in order: the launcher and its arguments.\<close>

fun spawns :: "event list \<Rightarrow> (string \<times> string list) list" where
  "spawns [] = []"
| "spawns (Spawn c a # es) = (c, a) # spawns es"
| "spawns (_ # es) = spawns es"

text \<open>The requests handed to the session object.\<close>

fun is_session_request :: "event \<Rightarrow> bool" where
  "is_session_request Initialize = True"
| "is_session_request ListTools = True"
| "is_session_request (CallTool _ _) = True"
| "is_session_request _ = False"

definition session_requests :: "event list \<Rightarrow> event list" where
  "session_requests es = filter is_session_request es"

text \<open>Acquisition and release: entering a resource, closing the exit stack, leaving a resource.\<close>

fun is_lifecycle :: "event \<Rightarrow> bool" where
  "is_lifecycle (Enter _) = True"
| "is_lifecycle Aclose = True"
| "is_lifecycle (Exit _) = True"
| "is_lifecycle _ = False"

definition lifecycle :: "event list \<Rightarrow> event list" where
  "lifecycle es = filter is_lifecycle es"

text \<open>A line that ends the chat loop: \<^verbatim>\<open>input(...).strip().lower() == 'quit'\<close>.\<close>

definition is_quit :: "'w externals \<Rightarrow> pystr \<Rightarrow> bool" where
  "is_quit ext line = (lower ext (strip line) = py ''quit'')"

text \<open>
  A lower-casing for running the client on sample input: on ASCII text it is what
  \<^verbatim>\<open>str.lower\<close> gives, and the sample queries are ASCII once stripped.
\<close>

definition ascii_lower :: "pystr \<Rightarrow> pystr" where
  "ascii_lower s = map (\<lambda>n. if 65 \<le> n \<and> n \<le> 90 then n + 32 else n) s"

text \<open>
  Externals that answer every call the same way, for running the client on concrete
  inputs: the answers of the spawn and of the handshake, the tool catalog, the model
  response, the value of the argument literal and the tool result are given; entering the
  session always succeeds.
\<close>

definition fixed_ext ::
  "exn option \<Rightarrow> exn option \<Rightarrow> (exn + tool list) \<Rightarrow> (exn + response) \<Rightarrow> (exn + pyvalue) \<Rightarrow>
   (exn + call_tool_result) \<Rightarrow> unit externals" where
  "fixed_ext spawn init tools resp lit res =
     \<lparr>stdio_client = (\<lambda>p w. (spawn, w)),
      ClientSession = (\<lambda>w. (None, w)),
      initialize = (\<lambda>w. (init, w)),
      list_tools = (\<lambda>w. (tools, w)),
      call_tool = (\<lambda>n a w. (res, w)),
      responses_create = (\<lambda>m t w. (resp, w)),
      literal_eval = (\<lambda>s. lit),
      lower = ascii_lower,
      unbound_local_text =
        ''cannot access local variable 'final_message' where it is not associated with a value''\<rparr>"

definition fresh :: "pystr list \<Rightarrow> unit state" where
  "fresh lines = \<lparr>world = (), stdin = lines, trace = [], session = False, exit_stack = []\<rparr>"

definition connected :: "pystr list \<Rightarrow> unit state" where
  "connected lines =
     \<lparr>world = (), stdin = lines, trace = [], session = True, exit_stack = [Session, Transport]\<rparr>"

text \<open>
  Two states have the same resources when the session attribute, the exit stack and the
  acquisition and release events of the trace agree; a frame also leaves the pending
  input alone.
\<close>

definition same_resources :: "'w state \<Rightarrow> 'w state \<Rightarrow> bool" where
  "same_resources st st' =
     (session st' = session st \<and> exit_stack st' = exit_stack st \<and>
      lifecycle (trace st') = lifecycle (trace st))"

definition frame :: "'w state \<Rightarrow> 'w state \<Rightarrow> bool" where
  "frame st st' = (same_resources st st' \<and> stdin st' = stdin st)"

text \<open>
  What holds of a client once \<^verbatim>\<open>connect_to_server\<close> has returned or raised: the
  resources entered so far are those on the exit stack, in the order transport, session.
\<close>

definition acquired :: "'w state \<Rightarrow> bool" where
  "acquired st =
     (lifecycle (trace st) = map Enter (rev (exit_stack st)) \<and>
      exit_stack st \<in> {[], [Transport], [Session, Transport]})"

text \<open>The state a turn leaves: one line consumed, the world moved on, events logged.\<close>

definition after_turn :: "'w state \<Rightarrow> 'w \<Rightarrow> pystr list \<Rightarrow> event list \<Rightarrow> 'w state" where
  "after_turn st w lines evs = st\<lparr>world := w, stdin := lines, trace := trace st @ evs\<rparr>"

text \<open>Sample data: a catalog of one tool, a function call of the model, tool results.\<close>

definition catalog :: "tool list" where
  "catalog = [\<lparr>name = ''search_by_place'', description = Some ''Earthquakes near a place'',
               inputSchema = PyDict [(PyStr ''type'', PyStr ''object'')]\<rparr>]"

definition sample_ext ::
  "output_item list \<Rightarrow> (exn + pyvalue) \<Rightarrow> (exn + call_tool_result) \<Rightarrow> unit externals" where
  "sample_ext items lit res = fixed_ext None None (Inr catalog) (Inr \<lparr>resp_output = items\<rparr>) lit res"

definition tokyo_call :: output_item where
  "tokyo_call = FunctionCall ''search_by_place'' ''{'location': 'Tokyo'}''"

definition tokyo_args :: pyvalue where
  "tokyo_args = PyDict [(PyStr ''location'', PyStr ''Tokyo'')]"

definition report_result :: call_tool_result where
  "report_result = \<lparr>ctr_content = [TextContent ''Report A''], isError = False\<rparr>"

definition failed_result :: call_tool_result where
  "failed_result = \<lparr>ctr_content = [TextContent ''Geocoding failed for Tokyo''], isError = True\<rparr>"

definition unknown_result :: call_tool_result where
  "unknown_result = \<lparr>ctr_content = [TextContent ''Unknown tool: get_weather''], isError = True\<rparr>"

section \<open>The adapter passes schemas through\<close>

text \<open>
  C7. For every list of tools the adapted array has the same length, keeps the order
  (the names and the parameter schemas come out position by position as they went in),
  and each entry's parameters are the tool's input schema, unchanged.
\<close>

theorem available_tools_passthrough:
  "length (available_tools tools) = length tools \<and>
   map ft_parameters (available_tools tools) = map inputSchema tools \<and>
   map ft_name (available_tools tools) = map name tools"
  by (simp add: available_tools_def comp_def)

section \<open>The launcher is chosen by extension\<close>

lemma spawns_append: "spawns (xs @ ys) = spawns xs @ spawns ys"
  by (induction xs rule: spawns.induct) simp_all

lemma spawns_enter_stdio_client:
  "spawns (trace (snd (enter_stdio_client ext params st))) =
   spawns (trace st) @ [(command params, args params)]"
  by (simp add: enter_stdio_client_def log_def Let_def spawns_append split: prod.split option.split)

lemma spawns_enter_ClientSession:
  "spawns (trace (snd (enter_ClientSession ext st))) = spawns (trace st)"
  by (simp add: enter_ClientSession_def log_def spawns_append split: prod.split option.split)

lemma spawns_session_initialize:
  "spawns (trace (snd (session_initialize ext st))) = spawns (trace st)"
  by (simp add: session_initialize_def log_def Let_def spawns_append split: prod.split)

lemma spawns_session_list_tools:
  "spawns (trace (snd (session_list_tools ext st))) = spawns (trace st)"
  by (simp add: session_list_tools_def log_def Let_def spawns_append split: prod.split)

lemma spawns_connect_valid:
  assumes "endswith p ''.py'' \<or> endswith p ''.js''"
  shows "spawns (trace (snd (connect_to_server ext p st))) =
         spawns (trace st) @ [(if endswith p ''.py'' then ''python'' else ''node'', [p])]"
proof -
  let ?params = "\<lparr>command = (if endswith p ''.py'' then ''python'' else ''node''),
                   args = [p], env = None\<rparr>"
  obtain r1 st1 where e1: "enter_stdio_client ext ?params st = (r1, st1)"
    by (cases "enter_stdio_client ext ?params st")
  obtain r2 st2 where e2: "enter_ClientSession ext st1 = (r2, st2)"
    by (cases "enter_ClientSession ext st1")
  obtain r3 st3 where e3: "session_initialize ext st2 = (r3, st3)"
    by (cases "session_initialize ext st2")
  obtain r4 st4 where e4: "session_list_tools ext st3 = (r4, st4)"
    by (cases "session_list_tools ext st3")
  have s1: "spawns (trace st1) =
            spawns (trace st) @ [(if endswith p ''.py'' then ''python'' else ''node'', [p])]"
    using spawns_enter_stdio_client[of ext ?params st] e1 by simp
  have s2: "spawns (trace st2) = spawns (trace st1)"
    using spawns_enter_ClientSession[of ext st1] e2 by simp
  have s3: "spawns (trace st3) = spawns (trace st2)"
    using spawns_session_initialize[of ext st2] e3 by simp
  have s4: "spawns (trace st4) = spawns (trace st3)"
    using spawns_session_list_tools[of ext st3] e4 by simp
  have "spawns (trace (snd (connect_to_server ext p st))) = spawns (trace st1)"
    using assms e1 e2 e3 e4 s2 s3 s4
    by (auto simp add: connect_to_server_def Let_def log_def spawns_append
             split: option.split sum.split)
  with s1 show ?thesis by simp
qed

text \<open>
  C9. A path ending in \<^verbatim>\<open>.py\<close> is launched with \<^verbatim>\<open>python\<close>, a path ending in
  \<^verbatim>\<open>.js\<close> with \<^verbatim>\<open>node\<close>, each as the one spawn attempt of the call with the path as
  its only argument; for any other path \<^verbatim>\<open>connect_to_server\<close> raises \<^verbatim>\<open>ValueError\<close>
  and leaves the state as it was, so nothing was spawned.
\<close>

theorem connect_to_server_launcher:
  "(endswith p ''.py'' \<longrightarrow>
      spawns (trace (snd (connect_to_server ext p st))) = spawns (trace st) @ [(''python'', [p])]) \<and>
   (\<not> endswith p ''.py'' \<and> endswith p ''.js'' \<longrightarrow>
      spawns (trace (snd (connect_to_server ext p st))) = spawns (trace st) @ [(''node'', [p])]) \<and>
   (\<not> endswith p ''.py'' \<and> \<not> endswith p ''.js'' \<longrightarrow>
      connect_to_server ext p st =
        (Some (Exn ValueError ''Server script must be a .py or .js file''), st))"
proof (intro conjI impI)
  assume "endswith p ''.py''"
  then show "spawns (trace (snd (connect_to_server ext p st))) =
             spawns (trace st) @ [(''python'', [p])]"
    using spawns_connect_valid[of p ext st] by simp
next
  assume "\<not> endswith p ''.py'' \<and> endswith p ''.js''"
  then show "spawns (trace (snd (connect_to_server ext p st))) =
             spawns (trace st) @ [(''node'', [p])]"
    using spawns_connect_valid[of p ext st] by simp
next
  assume "\<not> endswith p ''.py'' \<and> \<not> endswith p ''.js''"
  then show "connect_to_server ext p st =
             (Some (Exn ValueError ''Server script must be a .py or .js file''), st)"
    by (simp add: connect_to_server_def)
qed

theorem connect_to_server_launcher_witness:
  "endswith ''server.py'' ''.py'' \<and>
   spawns (trace (snd (connect_to_server (fixed_ext None None (Inr []) (Inr \<lparr>resp_output = []\<rparr>)
       (Inr (PyDict [])) (Inl (Exn McpError ''closed''))) ''server.py'' (fresh [])))) =
     [(''python'', [''server.py''])] \<and>
   \<not> endswith ''server.js'' ''.py'' \<and> endswith ''server.js'' ''.js'' \<and>
   spawns (trace (snd (connect_to_server (fixed_ext None None (Inr []) (Inr \<lparr>resp_output = []\<rparr>)
       (Inr (PyDict [])) (Inl (Exn McpError ''closed''))) ''server.js'' (fresh [])))) =
     [(''node'', [''server.js''])] \<and>
   \<not> endswith ''server.rb'' ''.py'' \<and> \<not> endswith ''server.rb'' ''.js'' \<and>
   connect_to_server (fixed_ext None None (Inr []) (Inr \<lparr>resp_output = []\<rparr>)
       (Inr (PyDict [])) (Inl (Exn McpError ''closed''))) ''server.rb'' (fresh []) =
     (Some (Exn ValueError ''Server script must be a .py or .js file''), fresh [])"
  using connect_to_server_launcher[of "''server.py''" _ "fresh []"]
        connect_to_server_launcher[of "''server.js''" _ "fresh []"]
        connect_to_server_launcher[of "''server.rb''" _ "fresh []"]
  by (simp add: endswith_def fresh_def)

section \<open>What one turn does\<close>

lemmas sample_defs = sample_ext_def fixed_ext_def connected_def catalog_def tokyo_call_def
  tokyo_args_def report_result_def failed_result_def unknown_result_def

lemmas turn_defs = process_query_def session_list_tools_def model_create_def
  session_call_tool_def log_def Let_def first_block_text_def first_part_text_def

lemmas run_defs = run_def main_def chat_loop_def MCPClient_init_def connect_to_server_def
  endswith_def enter_stdio_client_def enter_ClientSession_def session_initialize_def cleanup_def
  loop_body_def input_line_def except_Exception_def is_Exception_def

lemmas str_defs = py_def strip_def is_space_def ascii_lower_def

lemma session_list_tools_eq:
  assumes "session st" "list_tools ext (world st) = (r, w1)"
  shows "session_list_tools ext st = (r, st\<lparr>world := w1, trace := trace st @ [ListTools]\<rparr>)"
  using assms by (simp add: session_list_tools_def log_def Let_def)

lemma model_create_eq:
  assumes "responses_create ext msgs tls (world st) = (r, w2)"
  shows "model_create ext msgs tls st = (r, st\<lparr>world := w2, trace := trace st @ [Create msgs tls]\<rparr>)"
  using assms by (simp add: model_create_def log_def Let_def)

lemma session_call_tool_eq:
  assumes "session st" "call_tool ext n a (world st) = (r, w3)"
  shows "session_call_tool ext n a st = (r, st\<lparr>world := w3, trace := trace st @ [CallTool n a]\<rparr>)"
  using assms by (simp add: session_call_tool_def log_def Let_def)

lemma process_query_list_failure:
  assumes "session st"
    and "list_tools ext (world st) = (Inl e, w1)"
  shows "process_query ext query st = (Inl e, st\<lparr>world := w1, trace := trace st @ [ListTools]\<rparr>)"
  by (simp add: process_query_def session_list_tools_eq[OF assms])

lemma process_query_model_failure:
  assumes "session st"
    and "list_tools ext (world st) = (Inr tools, w1)"
    and "responses_create ext (user_messages query) (available_tools tools) w1 = (Inl e, w2)"
  shows "process_query ext query st =
     (Inl e, st\<lparr>world := w2,
                trace := trace st @ [ListTools, Create (user_messages query) (available_tools tools)]\<rparr>)"
proof -
  have a: "session_list_tools ext st = (Inr tools, st\<lparr>world := w1, trace := trace st @ [ListTools]\<rparr>)"
    using assms(1,2) by (rule session_list_tools_eq)
  have b: "model_create ext (user_messages query) (available_tools tools)
             (st\<lparr>world := w1, trace := trace st @ [ListTools]\<rparr>) =
           (Inl e, st\<lparr>world := w2,
               trace := trace st @ [ListTools, Create (user_messages query) (available_tools tools)]\<rparr>)"
    using model_create_eq[of ext "user_messages query" "available_tools tools"
        "st\<lparr>world := w1, trace := trace st @ [ListTools]\<rparr>" "Inl e" w2] assms(3)
    by simp
  show ?thesis
    by (simp add: process_query_def Let_def a b)
qed

lemma process_query_response:
  assumes "session st"
    and "list_tools ext (world st) = (Inr tools, w1)"
    and "responses_create ext (user_messages query) (available_tools tools) w1 = (Inr resp, w2)"
  shows "process_query ext query st =
     (let st2 = st\<lparr>world := w2,
                     trace := trace st @ [ListTools, Create (user_messages query) (available_tools tools)]\<rparr> in
      case resp_output resp of
        [] \<Rightarrow> (Inl (Exn IndexError ''list index out of range''), st2)
      | FunctionCall tool_name arguments # _ \<Rightarrow>
          (case literal_eval ext arguments of
             Inl e \<Rightarrow> (Inl e, st2)
           | Inr tool_args \<Rightarrow>
               (case session_call_tool ext tool_name tool_args st2 of
                  (Inl e, st3) \<Rightarrow> (Inl e, st3)
                | (Inr tool_call, st3) \<Rightarrow> (first_block_text (ctr_content tool_call), st3)))
      | Message parts # _ \<Rightarrow> (first_part_text parts, st2)
      | OtherItem cls ty # _ \<Rightarrow>
          (Inl (if ty = ''function_call'' then no_attribute cls ''name''
                else if ty = ''message'' then no_attribute cls ''content''
                else unbound_final_message ext), st2)
      | FalsyItem # _ \<Rightarrow> (Inr ''No response generated.'', st2))"
proof -
  have a: "session_list_tools ext st = (Inr tools, st\<lparr>world := w1, trace := trace st @ [ListTools]\<rparr>)"
    using assms(1,2) by (rule session_list_tools_eq)
  have b: "model_create ext (user_messages query) (available_tools tools)
             (st\<lparr>world := w1, trace := trace st @ [ListTools]\<rparr>) =
           (Inr resp, st\<lparr>world := w2,
               trace := trace st @ [ListTools, Create (user_messages query) (available_tools tools)]\<rparr>)"
    using model_create_eq[of ext "user_messages query" "available_tools tools"
        "st\<lparr>world := w1, trace := trace st @ [ListTools]\<rparr>" "Inr resp" w2] assms(3)
    by simp
  show ?thesis
    by (simp add: process_query_def Let_def a b split: list.split output_item.split)
qed

lemma process_query_call:
  assumes "session st"
    and "list_tools ext (world st) = (Inr tools, w1)"
    and "responses_create ext (user_messages query) (available_tools tools) w1 = (Inr resp, w2)"
    and "resp_output resp = FunctionCall tool_name arguments # items"
    and "literal_eval ext arguments = Inr tool_args"
    and "call_tool ext tool_name tool_args w2 = (r, w3)"
  shows "process_query ext query st =
     ((case r of Inl e \<Rightarrow> Inl e | Inr tool_call \<Rightarrow> first_block_text (ctr_content tool_call)),
      st\<lparr>world := w3,
         trace := trace st @ [ListTools, Create (user_messages query) (available_tools tools),
                              CallTool tool_name tool_args]\<rparr>)"
proof -
  let ?st2 = "st\<lparr>world := w2,
      trace := trace st @ [ListTools, Create (user_messages query) (available_tools tools)]\<rparr>"
  have c: "session_call_tool ext tool_name tool_args ?st2 =
        (r, ?st2\<lparr>world := w3, trace := trace ?st2 @ [CallTool tool_name tool_args]\<rparr>)"
    by (rule session_call_tool_eq) (use assms(1,6) in simp_all)
  show ?thesis
    using assms(4,5) c
    by (simp add: process_query_response[OF assms(1,2,3)] split: sum.split)
qed

text \<open>
  A truthy first item whose type is neither of the two the source compares with leaves
  \<^verbatim>\<open>final_message\<close> unbound.
\<close>

lemma process_query_other_type:
  assumes "session st"
    and "list_tools ext (world st) = (Inr tools, w1)"
    and "responses_create ext (user_messages query) (available_tools tools) w1 = (Inr resp, w2)"
    and "resp_output resp = item # items"
    and "item \<noteq> FalsyItem"
    and "item_type item \<noteq> ''function_call''"
    and "item_type item \<noteq> ''message''"
  shows "process_query ext query st =
     (Inl (unbound_final_message ext),
      st\<lparr>world := w2,
         trace := trace st @ [ListTools, Create (user_messages query) (available_tools tools)]\<rparr>)"
  using assms(4-7)
  by (cases item) (simp_all add: process_query_response[OF assms(1,2,3)])


text \<open>
  Every turn starts with one \<^verbatim>\<open>list_tools\<close> request and issues no other; when the request
  is answered, the model call comes next, with the adapted tools of that answer.
\<close>

lemma process_query_trace:
  assumes "session st"
    and "list_tools ext (world st) = (Inr tools, w1)"
  shows "\<exists>evs. trace (snd (process_query ext query st)) =
               trace st @ ListTools # Create (user_messages query) (available_tools tools) # evs \<and>
               ListTools \<notin> set evs"
proof -
  let ?st1 = "st\<lparr>world := w1, trace := trace st @ [ListTools]\<rparr>"
  obtain r2 w2 where mc: "responses_create ext (user_messages query) (available_tools tools) w1 = (r2, w2)"
    by (cases "responses_create ext (user_messages query) (available_tools tools) w1")
  show ?thesis
  proof (cases r2)
    case (Inl e)
    then show ?thesis
      by (simp add: process_query_model_failure[OF assms mc[unfolded Inl]])
  next
    case resp: (Inr resp)
    note pq = process_query_response[OF assms mc[unfolded resp]]
    show ?thesis
    proof (cases "resp_output resp")
      case Nil
      then show ?thesis by (simp add: pq)
    next
      case (Cons item items)
      show ?thesis
      proof (cases item)
        case (FunctionCall tool_name arguments)
        show ?thesis
        proof (cases "literal_eval ext arguments")
          case (Inl e)
          then show ?thesis using Cons FunctionCall by (simp add: pq)
        next
          case (Inr tool_args)
          obtain r3 w3 where ct: "call_tool ext tool_name tool_args w2 = (r3, w3)"
            by (cases "call_tool ext tool_name tool_args w2")
          show ?thesis
            using process_query_call[OF assms mc[unfolded resp]
                Cons[unfolded FunctionCall] Inr ct]
            by simp
        qed
      qed (use Cons in \<open>simp_all add: pq\<close>)
    qed
  qed
qed

text \<open>
  C6. In a turn where the model asks for a function call and the tool result has
  \<^verbatim>\<open>isError\<close> false and the single text block "Report A", the final text of
  \<^verbatim>\<open>process_query\<close> is exactly "Report A". That the result exists means the steps
  before it went through: the session listed its tools, the model answered, and the
  argument literal was evaluated.
\<close>

theorem process_query_report_roundtrip:
  assumes "session st"
    and "list_tools ext (world st) = (Inr tools, w1)"
    and "responses_create ext (user_messages query) (available_tools tools) w1 = (Inr resp, w2)"
    and "resp_output resp = FunctionCall tool_name arguments # items"
    and "literal_eval ext arguments = Inr tool_args"
    and "call_tool ext tool_name tool_args w2 = (Inr res, w3)"
    and "\<not> isError res"
    and "ctr_content res = [TextContent ''Report A'']"
  shows "fst (process_query ext query st) = Inr ''Report A''"
  using assms(8) by (simp add: process_query_call[OF assms(1-6)] first_block_text_def)

theorem process_query_report_roundtrip_witness:
  "session (connected []) \<and> \<not> isError report_result \<and>
   ctr_content report_result = [TextContent ''Report A''] \<and>
   fst (process_query (sample_ext [tokyo_call] (Inr tokyo_args) (Inr report_result))
          (py ''Give me report A'') (connected [])) = Inr ''Report A''"
proof -
  have "fst (process_query (sample_ext [tokyo_call] (Inr tokyo_args) (Inr report_result))
          (py ''Give me report A'') (connected [])) = Inr ''Report A''"
    by (rule process_query_report_roundtrip[where tools = catalog and ?w1.0 = "()"
          and ?w2.0 = "()" and ?w3.0 = "()"
          and resp = "\<lparr>resp_output = [tokyo_call]\<rparr>" and tool_name = "''search_by_place''"
          and arguments = "''{'location': 'Tokyo'}''" and items = "[]"
          and tool_args = tokyo_args and res = report_result])
       (simp_all add: sample_defs)
  then show ?thesis by (simp add: sample_defs)
qed

text \<open>
  C4 as stated fails: \<^verbatim>\<open>process_query\<close> never reads \<^verbatim>\<open>isError\<close>. Here the tool
  result reports an error and its text comes back as the final text of the turn.
\<close>

theorem process_query_isError_counterexample:
  "isError failed_result \<and>
   fst (process_query (sample_ext [tokyo_call] (Inr tokyo_args) (Inr failed_result))
          (py ''Any quakes near Tokyo?'') (connected [])) = Inr ''Geocoding failed for Tokyo''"
  by (simp add: sample_defs turn_defs)

text \<open>
  C4, amended. For every tool result that reports \<^verbatim>\<open>isError\<close> true and whose first
  content block is a text block, \<^verbatim>\<open>process_query\<close> returns that block's text as the
  final text; no error is raised.
\<close>

theorem process_query_ignores_isError:
  assumes "session st"
    and "list_tools ext (world st) = (Inr tools, w1)"
    and "responses_create ext (user_messages query) (available_tools tools) w1 = (Inr resp, w2)"
    and "resp_output resp = FunctionCall tool_name arguments # items"
    and "literal_eval ext arguments = Inr tool_args"
    and "call_tool ext tool_name tool_args w2 = (Inr res, w3)"
    and "isError res"
    and "ctr_content res = TextContent t # blocks"
  shows "fst (process_query ext query st) = Inr t"
  using assms(8) by (simp add: process_query_call[OF assms(1-6)] first_block_text_def)

theorem process_query_ignores_isError_witness:
  "session (connected []) \<and> isError failed_result \<and>
   ctr_content failed_result = TextContent ''Geocoding failed for Tokyo'' # [] \<and>
   fst (process_query (sample_ext [tokyo_call] (Inr tokyo_args) (Inr failed_result))
          (py ''Any quakes near Tokyo?'') (connected [])) = Inr ''Geocoding failed for Tokyo''"
proof -
  have "fst (process_query (sample_ext [tokyo_call] (Inr tokyo_args) (Inr failed_result))
          (py ''Any quakes near Tokyo?'') (connected [])) = Inr ''Geocoding failed for Tokyo''"
    by (rule process_query_ignores_isError[where tools = catalog and ?w1.0 = "()"
          and ?w2.0 = "()" and ?w3.0 = "()"
          and resp = "\<lparr>resp_output = [tokyo_call]\<rparr>" and tool_name = "''search_by_place''"
          and arguments = "''{'location': 'Tokyo'}''" and items = "[]"
          and tool_args = tokyo_args and res = failed_result and blocks = "[]"])
       (simp_all add: sample_defs)
  then show ?thesis by (simp add: sample_defs)
qed

text \<open>
  C3 as stated fails: the client keeps no catalog and checks no name. Here the model asks
  for \<^verbatim>\<open>get_weather\<close>, which the catalog does not hold; the call goes to the session
  all the same, and what the session answers is the final text.
\<close>

theorem process_query_unknown_tool_counterexample:
  "''get_weather'' \<notin> set (map name catalog) \<and>
   process_query (sample_ext [FunctionCall ''get_weather'' ''{}''] (Inr (PyDict [])) (Inr unknown_result))
       (py ''Weather in Tokyo?'') (connected []) =
     (Inr ''Unknown tool: get_weather'',
      \<lparr>world = (), stdin = [],
       trace = [ListTools, Create (user_messages (py ''Weather in Tokyo?'')) (available_tools catalog),
                CallTool ''get_weather'' (PyDict [])],
       session = True, exit_stack = [Session, Transport]\<rparr>)"
  by (simp add: sample_defs turn_defs)

text \<open>
  C3, amended. For every tool name absent from the catalog the session has just listed,
  \<^verbatim>\<open>process_query\<close> still hands \<^verbatim>\<open>call_tool(name, args)\<close> to the session, as the third
  request of the turn's trace, and the turn ends as the session answers: with its error,
  or with the first text block of its result.
\<close>

theorem process_query_forwards_unknown_tool:
  assumes "session st"
    and "list_tools ext (world st) = (Inr tools, w1)"
    and "responses_create ext (user_messages query) (available_tools tools) w1 = (Inr resp, w2)"
    and "resp_output resp = FunctionCall tool_name arguments # items"
    and "literal_eval ext arguments = Inr tool_args"
    and "call_tool ext tool_name tool_args w2 = (r, w3)"
    and "tool_name \<notin> set (map name tools)"
  shows "trace (snd (process_query ext query st)) =
           trace st @ [ListTools, Create (user_messages query) (available_tools tools),
                       CallTool tool_name tool_args] \<and>
         fst (process_query ext query st) =
           (case r of Inl e \<Rightarrow> Inl e | Inr res \<Rightarrow> first_block_text (ctr_content res))"
  by (simp add: process_query_call[OF assms(1-6)])

theorem process_query_forwards_unknown_tool_witness:
  "session (connected []) \<and> ''get_weather'' \<notin> set (map name catalog) \<and>
   trace (snd (process_query
       (sample_ext [FunctionCall ''get_weather'' ''{}''] (Inr (PyDict [])) (Inl (Exn McpError ''Unknown tool'')))
       (py ''Weather in Tokyo?'') (connected []))) =
     [ListTools, Create (user_messages (py ''Weather in Tokyo?'')) (available_tools catalog),
      CallTool ''get_weather'' (PyDict [])] \<and>
   fst (process_query
       (sample_ext [FunctionCall ''get_weather'' ''{}''] (Inr (PyDict [])) (Inl (Exn McpError ''Unknown tool'')))
       (py ''Weather in Tokyo?'') (connected [])) = Inl (Exn McpError ''Unknown tool'')"
proof -
  have a: "session (connected [])" and b: "''get_weather'' \<notin> set (map name catalog)"
    by (simp_all add: sample_defs)
  show ?thesis
    using a b process_query_forwards_unknown_tool[where st = "connected []"
        and ext = "sample_ext [FunctionCall ''get_weather'' ''{}''] (Inr (PyDict []))
                     (Inl (Exn McpError ''Unknown tool''))"
        and query = "py ''Weather in Tokyo?''" and tools = catalog
        and ?w1.0 = "()" and ?w2.0 = "()" and ?w3.0 = "()"
        and resp = "\<lparr>resp_output = [FunctionCall ''get_weather'' ''{}'']\<rparr>"
        and tool_name = "''get_weather''" and arguments = "''{}''" and items = "[]"
        and tool_args = "PyDict []" and r = "Inl (Exn McpError ''Unknown tool'')"]
    by (simp add: sample_defs)
qed




text \<open>
  C8 as stated fails: nothing is cached. A run that connects and answers one query asks
  the session for its tools twice, once in \<^verbatim>\<open>connect_to_server\<close> and once in the turn.
\<close>

theorem list_tools_requeried_counterexample:
  "session_requests (trace (snd (the (run
       (sample_ext [Message [OutputText ''Hello.'']] (Inr (PyDict [])) (Inr report_result))
       [''client.py'', ''server.py''] [py ''hello'', py ''quit''] ())))) =
     [Initialize, ListTools, ListTools]"
  unfolding run_def main_def chat_loop_def
  apply (subst while_True.simps)
  apply (subst while_True.simps)
  apply (simp add: run_defs str_defs sample_defs turn_defs session_requests_def)
  done

text \<open>
  C8, amended. The catalog is not cached: every turn of a connected client begins with a
  \<^verbatim>\<open>list_tools\<close> query of its own to the session and issues no second one. When the
  session answers the query with a catalog, the next event of the turn is the model call,
  and the tools handed to the model are the adapted catalog of that very answer; when the
  session answers with an error, the turn ends with that error and the model is not
  called.
\<close>

theorem process_query_lists_tools_every_turn:
  assumes "session st"
  shows "\<exists>evs. trace (snd (process_query ext query st)) = trace st @ ListTools # evs \<and>
               ListTools \<notin> set evs \<and>
               (\<forall>tools w1. list_tools ext (world st) = (Inr tools, w1) \<longrightarrow>
                  (\<exists>evs'. evs = Create (user_messages query) (available_tools tools) # evs')) \<and>
               (\<forall>e w1. list_tools ext (world st) = (Inl e, w1) \<longrightarrow>
                  evs = [] \<and> fst (process_query ext query st) = Inl e)"
proof -
  obtain r w1 where lt: "list_tools ext (world st) = (r, w1)"
    by (cases "list_tools ext (world st)")
  show ?thesis
  proof (cases r)
    case (Inl e)
    show ?thesis
      using lt Inl by (simp add: process_query_list_failure[OF assms lt[unfolded Inl]])
  next
    case (Inr tools)
    obtain evs where
      "trace (snd (process_query ext query st)) =
         trace st @ ListTools # Create (user_messages query) (available_tools tools) # evs"
      and "ListTools \<notin> set evs"
      using process_query_trace[OF assms lt[unfolded Inr]] by blast
    then show ?thesis
      using lt Inr by simp
  qed
qed

theorem process_query_lists_tools_every_turn_witness:
  "session (connected []) \<and>
   trace (snd (process_query
       (sample_ext [Message [OutputText ''Hello.'']] (Inr (PyDict [])) (Inr report_result))
       (py ''hello'') (connected []))) =
     trace (connected []) @
       [ListTools, Create (user_messages (py ''hello'')) (available_tools catalog)]"
proof -
  have a: "session (connected [])" by (simp add: sample_defs)
  have b: "list_tools (sample_ext [Message [OutputText ''Hello.'']] (Inr (PyDict [])) (Inr report_result))
             (world (connected [])) = (Inr catalog, ())"
    by (simp add: sample_ext_def fixed_ext_def)
  have c: "length (trace (snd (process_query
       (sample_ext [Message [OutputText ''Hello.'']] (Inr (PyDict [])) (Inr report_result))
       (py ''hello'') (connected [])))) = 2"
    by (simp add: sample_defs turn_defs)
  show ?thesis
    using a b c process_query_lists_tools_every_turn[OF a,
        of "sample_ext [Message [OutputText ''Hello.'']] (Inr (PyDict [])) (Inr report_result)"
           "py ''hello''"]
    by (auto simp add: connected_def)
qed

section \<open>What the loop keeps\<close>

lemma lifecycle_append: "lifecycle (xs @ ys) = lifecycle xs @ lifecycle ys"
  by (simp add: lifecycle_def)

lemma input_line_eq:
  "input_line p st =
     (case stdin st of
        [] \<Rightarrow> (Inl (Exn EOFError ''EOF when reading a line''), st\<lparr>trace := trace st @ [Prompt p]\<rparr>)
      | l # ls \<Rightarrow> (Inr l, st\<lparr>stdin := ls, trace := trace st @ [Prompt p]\<rparr>))"
  by (simp add: input_line_def log_def Let_def split: list.split)

lemma loop_body_query:
  assumes "stdin st = line # lines" "\<not> is_quit ext line"
  shows "loop_body ext st =
     (case process_query ext (strip line) (st\<lparr>stdin := lines, trace := trace st @ [Prompt query_prompt]\<rparr>) of
        (Inl e, st2) \<Rightarrow> except_Exception e st2
      | (Inr r, st2) \<Rightarrow> (Continue, log (Print (chatbot_text r)) st2))"
  using assms by (simp add: loop_body_def input_line_eq is_quit_def Let_def)

lemma loop_body_quit:
  assumes "stdin st = line # lines" "is_quit ext line"
  shows "loop_body ext st = (Break, st\<lparr>stdin := lines, trace := trace st @ [Prompt query_prompt]\<rparr>)"
  using assms by (simp add: loop_body_def input_line_eq is_quit_def Let_def)

lemma frame_refl: "frame st st"
  by (simp add: frame_def same_resources_def)

lemma frame_trans: "frame a b \<Longrightarrow> frame b c \<Longrightarrow> frame a c"
  by (simp add: frame_def same_resources_def)

lemma frame_session_list_tools: "frame st (snd (session_list_tools ext st))"
  by (simp add: frame_def same_resources_def session_list_tools_def log_def Let_def lifecycle_def
           split: prod.split)

lemma frame_model_create: "frame st (snd (model_create ext msgs tls st))"
  by (simp add: frame_def same_resources_def model_create_def log_def Let_def lifecycle_def
           split: prod.split)

lemma frame_session_call_tool: "frame st (snd (session_call_tool ext n a st))"
  by (simp add: frame_def same_resources_def session_call_tool_def log_def Let_def lifecycle_def
           split: prod.split)

lemma frame_process_query: "frame st (snd (process_query ext query st))"
proof -
  obtain r1 st1 where e1: "session_list_tools ext st = (r1, st1)"
    by (cases "session_list_tools ext st")
  have f1: "frame st st1" using frame_session_list_tools[of st ext] e1 by simp
  show ?thesis
  proof (cases r1)
    case (Inl e)
    then show ?thesis using e1 f1 by (simp add: process_query_def)
  next
    case tools: (Inr tools)
    obtain r2 st2 where e2: "model_create ext (user_messages query) (available_tools tools) st1 = (r2, st2)"
      by (cases "model_create ext (user_messages query) (available_tools tools) st1")
    have f2: "frame st st2"
      using frame_model_create[of st1 ext "user_messages query" "available_tools tools"] e2 f1
      by (auto intro: frame_trans)
    show ?thesis
    proof (cases r2)
      case (Inl e)
      then show ?thesis using e1 e2 f2 tools by (simp add: process_query_def Let_def)
    next
      case resp: (Inr resp)
      show ?thesis
      proof (cases "resp_output resp")
        case Nil
        then show ?thesis using e1 e2 f2 tools resp by (simp add: process_query_def Let_def)
      next
        case (Cons item items)
        show ?thesis
        proof (cases item)
          case (FunctionCall tool_name arguments)
          show ?thesis
          proof (cases "literal_eval ext arguments")
            case (Inl e)
            then show ?thesis
              using e1 e2 f2 tools resp Cons FunctionCall by (simp add: process_query_def Let_def)
          next
            case (Inr tool_args)
            obtain r3 st3 where e3: "session_call_tool ext tool_name tool_args st2 = (r3, st3)"
              by (cases "session_call_tool ext tool_name tool_args st2")
            have f3: "frame st st3"
              using frame_session_call_tool[of st2 ext tool_name tool_args] e3 f2
              by (auto intro: frame_trans)
            show ?thesis
              using e1 e2 e3 f3 tools resp Cons FunctionCall Inr
              by (simp add: process_query_def Let_def split: sum.split)
          qed
        qed (use e1 e2 f2 tools resp Cons in \<open>simp_all add: process_query_def Let_def\<close>)
      qed
    qed
  qed
qed

lemma same_resources_log:
  "\<not> is_lifecycle e \<Longrightarrow> same_resources st st' \<Longrightarrow> same_resources st (log e st')"
  by (simp add: same_resources_def log_def lifecycle_def)

lemma same_resources_except:
  "same_resources st st' \<Longrightarrow> same_resources st (snd (except_Exception e st'))"
  by (simp add: except_Exception_def same_resources_log)

lemma stdin_except: "stdin (snd (except_Exception e st)) = stdin st"
  by (simp add: except_Exception_def log_def)

lemma loop_body_effect:
  "same_resources st (snd (loop_body ext st)) \<and> stdin (snd (loop_body ext st)) = tl (stdin st)"
proof (cases "stdin st")
  case Nil
  then show ?thesis
    by (simp add: loop_body_def input_line_eq except_Exception_def log_def same_resources_def lifecycle_def)
next
  case (Cons line lines)
  show ?thesis
  proof (cases "is_quit ext line")
    case True
    then show ?thesis using Cons
      by (simp add: loop_body_quit same_resources_def lifecycle_def)
  next
    case False
    let ?st0 = "st\<lparr>stdin := lines, trace := trace st @ [Prompt query_prompt]\<rparr>"
    obtain r st2 where pq: "process_query ext (strip line) ?st0 = (r, st2)"
      by (cases "process_query ext (strip line) ?st0")
    have f: "frame ?st0 st2" using frame_process_query[of ?st0 ext "strip line"] pq by simp
    have s0: "same_resources st ?st0" by (simp add: same_resources_def lifecycle_def)
    have s2: "same_resources st st2" and i2: "stdin st2 = lines"
      using f s0 by (simp_all add: frame_def same_resources_def)
    show ?thesis
    proof (cases r)
      case (Inl e)
      then show ?thesis
        using Cons False pq s2 i2
        by (simp add: loop_body_query same_resources_except stdin_except)
    next
      case (Inr answer)
      then show ?thesis
        using Cons False pq s2 i2
        by (simp add: loop_body_query same_resources_log) (simp add: log_def)
    qed
  qed
qed

section \<open>Turns that fail\<close>

lemma while_True_continue:
  assumes "loop_body ext st = (Continue, st')"
  shows "while_True ext st = while_True ext st'"
  by (subst while_True.simps) (simp add: assms)

lemma while_True_break:
  assumes "loop_body ext st = (Break, st')"
  shows "while_True ext st = Some (None, st')"
  by (subst while_True.simps) (simp add: assms)

lemma while_True_next_pass:
  assumes "loop_body ext st = (Continue, st')"
  shows "while_True ext st =
     (case loop_body ext st' of
        (Continue, s) \<Rightarrow> while_True ext s
      | (Break, s) \<Rightarrow> Some (None, s)
      | (Raise x, s) \<Rightarrow> Some (Some x, s))"
  by (subst while_True_continue[OF assms], subst while_True.simps) (rule refl)

lemma error_text_nonempty: "error_text e \<noteq> []"
  by (simp add: error_text_def)

text \<open>
  The pass of the loop that follows a turn which ended in the handler: the state is
  \<open>st'\<close>, the session is open, and the next line of input is read and dispatched.
\<close>

lemma loop_body_next_line:
  assumes "stdin st' = l # rest"
  shows "loop_body ext st' =
     (if is_quit ext l then (Break, after_turn st' (world st') rest [Prompt query_prompt])
      else
        case process_query ext (strip l) (after_turn st' (world st') rest [Prompt query_prompt]) of
          (Inl x, s) \<Rightarrow> except_Exception x s
        | (Inr r, s) \<Rightarrow> (Continue, log (Print (chatbot_text r)) s))"
proof -
  have a: "after_turn st' (world st') rest [Prompt query_prompt] =
           st'\<lparr>stdin := rest, trace := trace st' @ [Prompt query_prompt]\<rparr>"
    by (simp add: after_turn_def)
  show ?thesis
    unfolding a
    by (cases "is_quit ext l") (simp_all add: loop_body_quit[OF assms] loop_body_query[OF assms])
qed

lemma failed_turn_continues:
  fixes st st' :: "'w state"
  assumes lb: "loop_body ext st = (Continue, st')"
    and inp: "stdin st' = lines"
  shows "while_True ext st = while_True ext st' \<and>
         while_True ext st =
           (case loop_body ext st' of
              (Continue, s) \<Rightarrow> while_True ext s
            | (Break, s) \<Rightarrow> Some (None, s)
            | (Raise x, s) \<Rightarrow> Some (Some x, s)) \<and>
         (\<forall>l rest. lines = l # rest \<longrightarrow>
            loop_body ext st' =
              (if is_quit ext l then (Break, after_turn st' (world st') rest [Prompt query_prompt])
               else
                 case process_query ext (strip l)
                        (after_turn st' (world st') rest [Prompt query_prompt]) of
                   (Inl x, s) \<Rightarrow> except_Exception x s
                 | (Inr r, s) \<Rightarrow> (Continue, log (Print (chatbot_text r)) s))) \<and>
         (\<forall>l rest. lines = l # rest \<and> is_quit ext l \<longrightarrow>
            while_True ext st =
              Some (None, after_turn st' (world st') rest [Prompt query_prompt]))"
proof (intro conjI allI impI)
  show "while_True ext st = while_True ext st'"
    by (rule while_True_continue[OF lb])
next
  show "while_True ext st =
           (case loop_body ext st' of
              (Continue, s) \<Rightarrow> while_True ext s
            | (Break, s) \<Rightarrow> Some (None, s)
            | (Raise x, s) \<Rightarrow> Some (Some x, s))"
    by (rule while_True_next_pass[OF lb])
next
  fix l rest assume "lines = l # rest"
  then have "stdin st' = l # rest" using inp by simp
  then show "loop_body ext st' =
              (if is_quit ext l then (Break, after_turn st' (world st') rest [Prompt query_prompt])
               else
                 case process_query ext (strip l)
                        (after_turn st' (world st') rest [Prompt query_prompt]) of
                   (Inl x, s) \<Rightarrow> except_Exception x s
                 | (Inr r, s) \<Rightarrow> (Continue, log (Print (chatbot_text r)) s))"
    by (rule loop_body_next_line)
next
  fix l rest assume h: "lines = l # rest \<and> is_quit ext l"
  then have i: "stdin st' = l # rest" using inp by simp
  have "loop_body ext st' = (Break, after_turn st' (world st') rest [Prompt query_prompt])"
    using h by (simp add: loop_body_next_line[OF i])
  then have "while_True ext st' =
             Some (None, after_turn st' (world st') rest [Prompt query_prompt])"
    by (rule while_True_break)
  then show "while_True ext st =
             Some (None, after_turn st' (world st') rest [Prompt query_prompt])"
    by (simp add: while_True_continue[OF lb])
qed

text \<open>
  C5. When the model's sole output item is a function call whose argument payload
  \<^verbatim>\<open>ast.literal_eval\<close> rejects (with an exception deriving from \<^verbatim>\<open>Exception\<close>, as
  its \<^verbatim>\<open>ValueError\<close> and \<^verbatim>\<open>SyntaxError\<close> do), the turn fails: the pass of the loop
  prints the non-empty text "Error: ..." and continues, so nothing is raised out of the
  loop; no tool call is made; the session attribute, the exit stack and the acquisition
  and release events are as before, so the session is still open. The loop then makes
  its next pass from the state the turn left: it reads the next line of input and hands it
  to \<^verbatim>\<open>process_query\<close> as the next query, or, if that line reads \<^verbatim>\<open>quit\<close>, returns
  without an exception.
\<close>

theorem unparseable_arguments_turn_fails:
  fixes st st' :: "'w state"
  assumes "stdin st = line # lines" and "\<not> is_quit ext line" and "session st"
    and "list_tools ext (world st) = (Inr tools, w1)"
    and "responses_create ext (user_messages (strip line)) (available_tools tools) w1 = (Inr resp, w2)"
    and "resp_output resp = [FunctionCall tool_name arguments]"
    and "literal_eval ext arguments = Inl e"
    and "is_Exception e"
  defines "st' \<equiv> after_turn st w2 lines
              [Prompt query_prompt, ListTools,
               Create (user_messages (strip line)) (available_tools tools),
               Print (error_text e)]"
  shows "loop_body ext st = (Continue, st') \<and>
         error_text e \<noteq> [] \<and>
         session st' \<and> same_resources st st' \<and> stdin st' = lines \<and>
         while_True ext st = while_True ext st' \<and>
         while_True ext st =
           (case loop_body ext st' of
              (Continue, s) \<Rightarrow> while_True ext s
            | (Break, s) \<Rightarrow> Some (None, s)
            | (Raise x, s) \<Rightarrow> Some (Some x, s)) \<and>
         (\<forall>l rest. lines = l # rest \<longrightarrow>
            loop_body ext st' =
              (if is_quit ext l then (Break, after_turn st' (world st') rest [Prompt query_prompt])
               else
                 case process_query ext (strip l)
                        (after_turn st' (world st') rest [Prompt query_prompt]) of
                   (Inl x, s) \<Rightarrow> except_Exception x s
                 | (Inr r, s) \<Rightarrow> (Continue, log (Print (chatbot_text r)) s))) \<and>
         (\<forall>l rest. lines = l # rest \<and> is_quit ext l \<longrightarrow>
            while_True ext st =
              Some (None, after_turn st' (world st') rest [Prompt query_prompt]))"
proof -
  let ?st0 = "st\<lparr>stdin := lines, trace := trace st @ [Prompt query_prompt]\<rparr>"
  have pq: "process_query ext (strip line) ?st0 =
        (Inl e, ?st0\<lparr>world := w2,
            trace := trace ?st0 @ [ListTools, Create (user_messages (strip line)) (available_tools tools)]\<rparr>)"
    using assms(6,7)
    by (simp add: process_query_response[where st = ?st0 and tools = tools and ?w1.0 = w1
          and resp = resp and ?w2.0 = w2] assms(3,4,5))
  have lb: "loop_body ext st = (Continue, st')"
    using assms(8)
    by (simp add: loop_body_query[OF assms(1,2)] pq except_Exception_def log_def after_turn_def st'_def)
  have sr: "same_resources st st'"
    by (simp add: same_resources_def after_turn_def lifecycle_def st'_def)
  have se: "session st'" using assms(3) by (simp add: after_turn_def st'_def)
  have inp: "stdin st' = lines" by (simp add: after_turn_def st'_def)
  note fc = failed_turn_continues[OF lb inp]
  show ?thesis
    using lb error_text_nonempty[of e] se sr inp fc by (intro conjI) blast+
qed

theorem unparseable_arguments_turn_fails_witness:
  "stdin (connected [py ''hello'', py ''quit'' @ [0xA0]]) = py ''hello'' # [py ''quit'' @ [0xA0]] \<and>
   \<not> is_quit (sample_ext [FunctionCall ''search_by_place'' ''{location: '']
               (Inl (Exn SyntaxError ''invalid syntax'')) (Inr report_result)) (py ''hello'') \<and>
   is_quit (sample_ext [FunctionCall ''search_by_place'' ''{location: '']
               (Inl (Exn SyntaxError ''invalid syntax'')) (Inr report_result)) (py ''quit'' @ [0xA0]) \<and>
   session (connected [py ''hello'', py ''quit'' @ [0xA0]]) \<and>
   is_Exception (Exn SyntaxError ''invalid syntax'') \<and>
   loop_body (sample_ext [FunctionCall ''search_by_place'' ''{location: '']
                (Inl (Exn SyntaxError ''invalid syntax'')) (Inr report_result))
       (connected [py ''hello'', py ''quit'' @ [0xA0]]) =
     (Continue,
      \<lparr>world = (), stdin = [py ''quit'' @ [0xA0]],
       trace = [Prompt query_prompt, ListTools,
                Create (user_messages (py ''hello'')) (available_tools catalog),
                Print (error_text (Exn SyntaxError ''invalid syntax''))],
       session = True, exit_stack = [Session, Transport]\<rparr>) \<and>
   error_text (Exn SyntaxError ''invalid syntax'') \<noteq> [] \<and>
   while_True (sample_ext [FunctionCall ''search_by_place'' ''{location: '']
                (Inl (Exn SyntaxError ''invalid syntax'')) (Inr report_result))
       (connected [py ''hello'', py ''quit'' @ [0xA0]]) =
     Some (None,
      \<lparr>world = (), stdin = [],
       trace = [Prompt query_prompt, ListTools,
                Create (user_messages (py ''hello'')) (available_tools catalog),
                Print (error_text (Exn SyntaxError ''invalid syntax'')),
                Prompt query_prompt],
       session = True, exit_stack = [Session, Transport]\<rparr>)"
proof -
  let ?ext = "sample_ext [FunctionCall ''search_by_place'' ''{location: '']
                (Inl (Exn SyntaxError ''invalid syntax'')) (Inr report_result)"
  let ?st = "connected [py ''hello'', py ''quit'' @ [0xA0]]"
  have q: "\<not> is_quit ?ext (py ''hello'')"
    by (simp add: is_quit_def sample_ext_def fixed_ext_def str_defs)
  have q': "is_quit ?ext (py ''quit'' @ [0xA0])"
    by (simp add: is_quit_def sample_ext_def fixed_ext_def str_defs)
  have s: "strip (py ''hello'') = py ''hello''" by (simp add: str_defs)
  have i: "is_Exception (Exn SyntaxError ''invalid syntax'')" by (simp add: is_Exception_def)
  have a: "stdin ?st = py ''hello'' # [py ''quit'' @ [0xA0]]"
    and b: "session ?st"
    by (simp_all add: connected_def)
  note t = unparseable_arguments_turn_fails[where st = ?st and line = "py ''hello''"
        and lines = "[py ''quit'' @ [0xA0]]" and ext = ?ext
        and tools = catalog and ?w1.0 = "()" and ?w2.0 = "()"
        and resp = "\<lparr>resp_output = [FunctionCall ''search_by_place'' ''{location: '']\<rparr>"
        and tool_name = "''search_by_place''" and arguments = "''{location: ''"
        and e = "Exn SyntaxError ''invalid syntax''", OF a q b]
  have u: "list_tools ?ext (world ?st) = (Inr catalog, ())"
    and v: "responses_create ?ext (user_messages (strip (py ''hello''))) (available_tools catalog) () =
            (Inr \<lparr>resp_output = [FunctionCall ''search_by_place'' ''{location: '']\<rparr>, ())"
    and w: "literal_eval ?ext ''{location: '' = Inl (Exn SyntaxError ''invalid syntax'')"
    by (simp_all add: sample_ext_def fixed_ext_def)
  note t' = t[OF u v _ w i, simplified s]
  have lb: "loop_body ?ext ?st =
     (Continue,
      \<lparr>world = (), stdin = [py ''quit'' @ [0xA0]],
       trace = [Prompt query_prompt, ListTools,
                Create (user_messages (py ''hello'')) (available_tools catalog),
                Print (error_text (Exn SyntaxError ''invalid syntax''))],
       session = True, exit_stack = [Session, Transport]\<rparr>)"
    using t'[THEN conjunct1] by (simp add: after_turn_def connected_def)
  have wt: "while_True ?ext ?st =
     Some (None,
      \<lparr>world = (), stdin = [],
       trace = [Prompt query_prompt, ListTools,
                Create (user_messages (py ''hello'')) (available_tools catalog),
                Print (error_text (Exn SyntaxError ''invalid syntax'')),
                Prompt query_prompt],
       session = True, exit_stack = [Session, Transport]\<rparr>)"
    using t'[THEN conjunct2, THEN conjunct2, THEN conjunct2, THEN conjunct2, THEN conjunct2,
             THEN conjunct2, THEN conjunct2, THEN conjunct2, THEN spec, THEN spec, THEN mp,
             of "py ''quit'' @ [0xA0]" "[]"] q'
    by (simp add: after_turn_def connected_def)
  show ?thesis
    using a q q' b i lb wt error_text_nonempty[of "Exn SyntaxError ''invalid syntax''"]
    by (intro conjI)
qed

text \<open>
  C10. When the first output item is truthy and its type is neither
  \<^verbatim>\<open>function_call\<close> nor \<^verbatim>\<open>message\<close>, \<^verbatim>\<open>process_query\<close> returns no final text: it
  raises \<^verbatim>\<open>UnboundLocalError\<close> at \<^verbatim>\<open>return final_message\<close>, after the two requests
  of the turn. The handler of the chat loop prints it as an error message and the pass
  continues; the loop then makes its next pass from the state the turn left: it reads the
  next line of input and hands it to \<^verbatim>\<open>process_query\<close> as the next query, or, if that
  line reads \<^verbatim>\<open>quit\<close>, returns without an exception.
\<close>

theorem other_item_unbound_local:
  fixes st st' :: "'w state"
  assumes "stdin st = line # lines" and "\<not> is_quit ext line" and "session st"
    and "list_tools ext (world st) = (Inr tools, w1)"
    and "responses_create ext (user_messages (strip line)) (available_tools tools) w1 = (Inr resp, w2)"
    and "resp_output resp = item # items"
    and "item \<noteq> FalsyItem"
    and "item_type item \<noteq> ''function_call''"
    and "item_type item \<noteq> ''message''"
  defines "st' \<equiv> after_turn st w2 lines
              [Prompt query_prompt, ListTools,
               Create (user_messages (strip line)) (available_tools tools),
               Print (error_text (unbound_final_message ext))]"
  shows "process_query ext (strip line) (after_turn st (world st) lines [Prompt query_prompt]) =
           (Inl (unbound_final_message ext),
            after_turn st w2 lines
              [Prompt query_prompt, ListTools,
               Create (user_messages (strip line)) (available_tools tools)]) \<and>
         exn_cls (unbound_final_message ext) = UnboundLocalError \<and>
         str_exn (unbound_final_message ext) = unbound_local_text ext \<and>
         loop_body ext st = (Continue, st') \<and>
         session st' \<and> same_resources st st' \<and> stdin st' = lines \<and>
         while_True ext st = while_True ext st' \<and>
         while_True ext st =
           (case loop_body ext st' of
              (Continue, s) \<Rightarrow> while_True ext s
            | (Break, s) \<Rightarrow> Some (None, s)
            | (Raise x, s) \<Rightarrow> Some (Some x, s)) \<and>
         (\<forall>l rest. lines = l # rest \<longrightarrow>
            loop_body ext st' =
              (if is_quit ext l then (Break, after_turn st' (world st') rest [Prompt query_prompt])
               else
                 case process_query ext (strip l)
                        (after_turn st' (world st') rest [Prompt query_prompt]) of
                   (Inl x, s) \<Rightarrow> except_Exception x s
                 | (Inr r, s) \<Rightarrow> (Continue, log (Print (chatbot_text r)) s))) \<and>
         (\<forall>l rest. lines = l # rest \<and> is_quit ext l \<longrightarrow>
            while_True ext st =
              Some (None, after_turn st' (world st') rest [Prompt query_prompt]))"
proof -
  let ?st0 = "st\<lparr>stdin := lines, trace := trace st @ [Prompt query_prompt]\<rparr>"
  have st0: "after_turn st (world st) lines [Prompt query_prompt] = ?st0"
    by (simp add: after_turn_def)
  have pq: "process_query ext (strip line) ?st0 =
        (Inl (unbound_final_message ext), ?st0\<lparr>world := w2,
            trace := trace ?st0 @ [ListTools, Create (user_messages (strip line)) (available_tools tools)]\<rparr>)"
    by (rule process_query_other_type[where ?w1.0 = w1 and resp = resp and item = item and items = items])
       (simp_all add: assms(3-9))
  have pq': "process_query ext (strip line) (after_turn st (world st) lines [Prompt query_prompt]) =
           (Inl (unbound_final_message ext),
            after_turn st w2 lines
              [Prompt query_prompt, ListTools,
               Create (user_messages (strip line)) (available_tools tools)])"
    unfolding st0 pq by (simp add: after_turn_def)
  have ex: "is_Exception (unbound_final_message ext)"
    by (simp add: unbound_final_message_def is_Exception_def)
  have cl: "exn_cls (unbound_final_message ext) = UnboundLocalError"
    and tx: "str_exn (unbound_final_message ext) = unbound_local_text ext"
    by (simp_all add: unbound_final_message_def)
  have lb: "loop_body ext st = (Continue, st')"
    using ex
    by (simp add: loop_body_query[OF assms(1,2)] pq except_Exception_def log_def after_turn_def st'_def)
  have sr: "same_resources st st'"
    by (simp add: same_resources_def after_turn_def lifecycle_def st'_def)
  have se: "session st'" using assms(3) by (simp add: after_turn_def st'_def)
  have inp: "stdin st' = lines" by (simp add: after_turn_def st'_def)
  note fc = failed_turn_continues[OF lb inp]
  show ?thesis
    using pq' cl tx lb se sr inp fc by (intro conjI) blast+
qed

theorem other_item_unbound_local_witness:
  "stdin (connected [py ''hello'', py ''quit'' @ [0xA0]]) = py ''hello'' # [py ''quit'' @ [0xA0]] \<and>
   \<not> is_quit (sample_ext [OtherItem ''ResponseReasoningItem'' ''reasoning''] (Inr (PyDict []))
               (Inr report_result)) (py ''hello'') \<and>
   is_quit (sample_ext [OtherItem ''ResponseReasoningItem'' ''reasoning''] (Inr (PyDict []))
               (Inr report_result)) (py ''quit'' @ [0xA0]) \<and>
   session (connected [py ''hello'', py ''quit'' @ [0xA0]]) \<and>
   OtherItem ''ResponseReasoningItem'' ''reasoning'' \<noteq> FalsyItem \<and>
   item_type (OtherItem ''ResponseReasoningItem'' ''reasoning'') \<noteq> ''function_call'' \<and>
   item_type (OtherItem ''ResponseReasoningItem'' ''reasoning'') \<noteq> ''message'' \<and>
   loop_body (sample_ext [OtherItem ''ResponseReasoningItem'' ''reasoning''] (Inr (PyDict []))
                (Inr report_result))
       (connected [py ''hello'', py ''quit'' @ [0xA0]]) =
     (Continue,
      \<lparr>world = (), stdin = [py ''quit'' @ [0xA0]],
       trace = [Prompt query_prompt, ListTools,
                Create (user_messages (py ''hello'')) (available_tools catalog),
                Print (newline # ''Error: cannot access local variable 'final_message' where it is not associated with a value'')],
       session = True, exit_stack = [Session, Transport]\<rparr>) \<and>
   while_True (sample_ext [OtherItem ''ResponseReasoningItem'' ''reasoning''] (Inr (PyDict []))
                (Inr report_result))
       (connected [py ''hello'', py ''quit'' @ [0xA0]]) =
     Some (None,
      \<lparr>world = (), stdin = [],
       trace = [Prompt query_prompt, ListTools,
                Create (user_messages (py ''hello'')) (available_tools catalog),
                Print (newline # ''Error: cannot access local variable 'final_message' where it is not associated with a value''),
                Prompt query_prompt],
       session = True, exit_stack = [Session, Transport]\<rparr>)"
proof -
  let ?ext = "sample_ext [OtherItem ''ResponseReasoningItem'' ''reasoning''] (Inr (PyDict []))
                (Inr report_result)"
  let ?st = "connected [py ''hello'', py ''quit'' @ [0xA0]]"
  have q: "\<not> is_quit ?ext (py ''hello'')"
    by (simp add: is_quit_def sample_ext_def fixed_ext_def str_defs)
  have q': "is_quit ?ext (py ''quit'' @ [0xA0])"
    by (simp add: is_quit_def sample_ext_def fixed_ext_def str_defs)
  have s: "strip (py ''hello'') = py ''hello''" by (simp add: str_defs)
  have a: "stdin ?st = py ''hello'' # [py ''quit'' @ [0xA0]]"
    and b: "session ?st"
    by (simp_all add: connected_def)
  have n: "OtherItem ''ResponseReasoningItem'' ''reasoning'' \<noteq> FalsyItem"
    and n1: "item_type (OtherItem ''ResponseReasoningItem'' ''reasoning'') \<noteq> ''function_call''"
    and n2: "item_type (OtherItem ''ResponseReasoningItem'' ''reasoning'') \<noteq> ''message''"
    by simp_all
  have u: "list_tools ?ext (world ?st) = (Inr catalog, ())"
    and v: "responses_create ?ext (user_messages (strip (py ''hello''))) (available_tools catalog) () =
            (Inr \<lparr>resp_output = [OtherItem ''ResponseReasoningItem'' ''reasoning'']\<rparr>, ())"
    and r: "resp_output \<lparr>resp_output = [OtherItem ''ResponseReasoningItem'' ''reasoning'']\<rparr> =
            OtherItem ''ResponseReasoningItem'' ''reasoning'' # []"
    by (simp_all add: sample_ext_def fixed_ext_def)
  have e: "error_text (unbound_final_message ?ext) =
           newline # ''Error: cannot access local variable 'final_message' where it is not associated with a value''"
    by (simp add: error_text_def unbound_final_message_def sample_ext_def fixed_ext_def)
  note t = other_item_unbound_local[OF a q b u v r n n1 n2, simplified s e]
  have lb: "loop_body ?ext ?st =
     (Continue,
      \<lparr>world = (), stdin = [py ''quit'' @ [0xA0]],
       trace = [Prompt query_prompt, ListTools,
                Create (user_messages (py ''hello'')) (available_tools catalog),
                Print (newline # ''Error: cannot access local variable 'final_message' where it is not associated with a value'')],
       session = True, exit_stack = [Session, Transport]\<rparr>)"
    using t[THEN conjunct2, THEN conjunct2, THEN conjunct2, THEN conjunct1]
    by (simp add: after_turn_def connected_def)
  have wt: "while_True ?ext ?st =
     Some (None,
      \<lparr>world = (), stdin = [],
       trace = [Prompt query_prompt, ListTools,
                Create (user_messages (py ''hello'')) (available_tools catalog),
                Print (newline # ''Error: cannot access local variable 'final_message' where it is not associated with a value''),
                Prompt query_prompt],
       session = True, exit_stack = [Session, Transport]\<rparr>)"
    using t[THEN conjunct2, THEN conjunct2, THEN conjunct2, THEN conjunct2, THEN conjunct2,
            THEN conjunct2, THEN conjunct2, THEN conjunct2, THEN conjunct2, THEN conjunct2,
            THEN spec, THEN spec, THEN mp, of "py ''quit'' @ [0xA0]" "[]"] q'
    by (simp add: after_turn_def connected_def)
  show ?thesis
    using a q q' b n n1 n2 lb wt by (intro conjI)
qed

section \<open>Release on every way out\<close>

lemma same_resources_refl: "same_resources st st"
  by (simp add: same_resources_def)

lemma same_resources_trans:
  "same_resources a b \<Longrightarrow> same_resources b c \<Longrightarrow> same_resources a c"
  by (simp add: same_resources_def)

lemma while_True_same_resources:
  assumes "while_True ext st = Some y"
  shows "same_resources st (snd y)"
proof (rule while_True.raw_induct[where P = "\<lambda>e s r. same_resources s (snd r)", OF _ assms])
  fix loop :: "'a externals \<Rightarrow> 'a state \<Rightarrow> (exn option \<times> 'a state) option"
  fix ext st y
  assume IH: "\<And>e s r. loop e s = Some r \<Longrightarrow> same_resources s (snd r)"
  assume step: "(case loop_body ext st of
                   (Continue, st1) \<Rightarrow> loop ext st1
                 | (Break, st1) \<Rightarrow> Some (None, st1)
                 | (Raise e, st1) \<Rightarrow> Some (Some e, st1)) = Some y"
  obtain f st1 where lb: "loop_body ext st = (f, st1)"
    by (cases "loop_body ext st")
  have s1: "same_resources st st1"
    using loop_body_effect[of st ext] lb by simp
  show "same_resources st (snd y)"
  proof (cases f)
    case Continue
    with step lb have "loop ext st1 = Some y" by simp
    then have "same_resources st1 (snd y)" by (rule IH)
    with s1 show ?thesis by (rule same_resources_trans)
  next
    case Break
    with step lb have "y = (None, st1)" by simp
    with s1 show ?thesis by simp
  next
    case (Raise e)
    with step lb have "y = (Some e, st1)" by simp
    with s1 show ?thesis by simp
  qed
qed

lemma while_True_terminates:
  "list_ex (is_quit ext) (stdin st) \<Longrightarrow> while_True ext st \<noteq> None"
proof (induction "stdin st" arbitrary: st)
  case Nil
  then show ?case by simp
next
  case (Cons line lines)
  note inp = Cons.hyps(2)[symmetric]
  show ?case
  proof (cases "is_quit ext line")
    case True
    show ?thesis
      by (subst while_True.simps) (simp add: loop_body_quit[OF inp True])
  next
    case False
    with Cons.prems inp have q: "list_ex (is_quit ext) lines" by simp
    obtain f st1 where lb: "loop_body ext st = (f, st1)"
      by (cases "loop_body ext st")
    have i1: "lines = stdin st1"
      using loop_body_effect[of st ext] lb inp by simp
    have "while_True ext st1 \<noteq> None"
      using Cons.hyps(1)[OF i1] q i1 by simp
    then show ?thesis
      by (subst while_True.simps) (simp add: lb split: flow.split)
  qed
qed

lemma chat_loop_same_resources:
  assumes "chat_loop ext st = Some y"
  shows "same_resources st (snd y)"
proof -
  let ?st1 = "log (Print ''Type your queries or 'quit' to exit.'')
         (log (Print (newline # ''MCP Client Started!'')) st)"
  have a: "same_resources st ?st1"
    by (simp add: same_resources_def log_def lifecycle_def)
  have "same_resources ?st1 (snd y)"
    using assms by (intro while_True_same_resources[of ext]) (simp add: chat_loop_def)
  with a show ?thesis by (rule same_resources_trans)
qed

lemma chat_loop_terminates:
  "list_ex (is_quit ext) (stdin st) \<Longrightarrow> chat_loop ext st \<noteq> None"
  unfolding chat_loop_def by (rule while_True_terminates) (simp add: log_def)

text \<open>
  Once the input is exhausted every pass raises \<^verbatim>\<open>EOFError\<close>, which the handler
  catches: the loop never returns.
\<close>

lemma loop_body_eof:
  assumes "stdin st = []"
  shows "fst (loop_body ext st) = Continue"
  using assms
  by (simp add: loop_body_def input_line_eq except_Exception_def is_Exception_def)

lemma while_True_returns_input:
  assumes "while_True ext st = Some y"
  shows "stdin st \<noteq> []"
proof (rule while_True.raw_induct[where P = "\<lambda>e s r. stdin s \<noteq> []", OF _ assms])
  fix loop :: "'a externals \<Rightarrow> 'a state \<Rightarrow> (exn option \<times> 'a state) option"
  fix ext st y
  assume IH: "\<And>e s r. loop e s = Some r \<Longrightarrow> stdin s \<noteq> []"
  assume step: "(case loop_body ext st of
                   (Continue, st1) \<Rightarrow> loop ext st1
                 | (Break, st1) \<Rightarrow> Some (None, st1)
                 | (Raise e, st1) \<Rightarrow> Some (Some e, st1)) = Some y"
  show "stdin st \<noteq> []"
  proof
    assume e: "stdin st = []"
    obtain f st1 where lb: "loop_body ext st = (f, st1)"
      by (cases "loop_body ext st")
    have c: "f = Continue" using loop_body_eof[OF e, of ext] lb by simp
    have i: "stdin st1 = []" using loop_body_effect[of st ext] lb e by simp
    from step lb c have "loop ext st1 = Some y" by simp
    then have "stdin st1 \<noteq> []" by (rule IH)
    with i show False by simp
  qed
qed

lemma while_True_eof_never_returns:
  "stdin st = [] \<Longrightarrow> while_True ext st = None"
  using while_True_returns_input[of ext st] by (cases "while_True ext st") auto

lemma enter_stdio_client_effect:
  assumes "enter_stdio_client ext params st = (r, st1)"
  shows "(r = None \<longrightarrow> exit_stack st1 = Transport # exit_stack st \<and>
                     lifecycle (trace st1) = lifecycle (trace st) @ [Enter Transport]) \<and>
         (r \<noteq> None \<longrightarrow> exit_stack st1 = exit_stack st \<and>
                     lifecycle (trace st1) = lifecycle (trace st))"
  using assms
  by (auto simp add: enter_stdio_client_def log_def Let_def lifecycle_def
           split: prod.splits option.splits)

lemma enter_ClientSession_effect:
  assumes "enter_ClientSession ext st = (r, st1)"
  shows "(r = None \<longrightarrow> exit_stack st1 = Session # exit_stack st \<and>
                     lifecycle (trace st1) = lifecycle (trace st) @ [Enter Session]) \<and>
         (r \<noteq> None \<longrightarrow> exit_stack st1 = exit_stack st \<and>
                     lifecycle (trace st1) = lifecycle (trace st))"
  using assms
  by (auto simp add: enter_ClientSession_def log_def Let_def lifecycle_def
           split: prod.splits option.splits)

lemma session_initialize_effect:
  assumes "session_initialize ext st = (r, st1)"
  shows "exit_stack st1 = exit_stack st \<and> lifecycle (trace st1) = lifecycle (trace st)"
  using assms
  by (auto simp add: session_initialize_def log_def Let_def lifecycle_def split: prod.splits)

lemma session_list_tools_effect:
  assumes "session_list_tools ext st = (r, st1)"
  shows "exit_stack st1 = exit_stack st \<and> lifecycle (trace st1) = lifecycle (trace st)"
  using frame_session_list_tools[of st ext] assms
  by (simp add: frame_def same_resources_def)

lemma connect_to_server_valid:
  assumes "endswith p ''.py'' \<or> endswith p ''.js''"
  shows "connect_to_server ext p st =
     (case enter_stdio_client ext
             \<lparr>command = (if endswith p ''.py'' then ''python'' else ''node''),
              args = [p], env = None\<rparr> st of
        (Some e, st1) \<Rightarrow> (Some e, st1)
      | (None, st1) \<Rightarrow>
          (case enter_ClientSession ext st1 of
             (Some e, st2) \<Rightarrow> (Some e, st2)
           | (None, st2) \<Rightarrow>
               (case session_initialize ext st2 of
                  (Some e, st3) \<Rightarrow> (Some e, st3)
                | (None, st3) \<Rightarrow>
                    (case session_list_tools ext st3 of
                       (Inl e, st4) \<Rightarrow> (Some e, st4)
                     | (Inr tools, st4) \<Rightarrow> (None, log (PrintTools (map name tools)) st4)))))"
  using assms by (auto simp add: connect_to_server_def Let_def)

lemma connect_to_server_acquired:
  assumes "exit_stack st = []" and "lifecycle (trace st) = []"
    and "connect_to_server ext p st = (r, st')"
  shows "acquired st'"
proof (cases "endswith p ''.py'' \<or> endswith p ''.js''")
  case False
  then have "st' = st" using assms(3) by (simp add: connect_to_server_def)
  then show ?thesis using assms(1,2) by (simp add: acquired_def)
next
  case True
  let ?params = "\<lparr>command = (if endswith p ''.py'' then ''python'' else ''node''),
                   args = [p], env = None\<rparr>"
  note cs = connect_to_server_valid[OF True, of ext st]
  obtain r1 st1 where e1: "enter_stdio_client ext ?params st = (r1, st1)"
    by (cases "enter_stdio_client ext ?params st")
  note f1 = enter_stdio_client_effect[OF e1]
  show ?thesis
  proof (cases r1)
    case (Some e)
    then have "st' = st1" using e1 assms(3) by (simp add: cs)
    then show ?thesis using f1 Some assms(1,2) by (simp add: acquired_def)
  next
    case None
    obtain r2 st2 where e2: "enter_ClientSession ext st1 = (r2, st2)"
      by (cases "enter_ClientSession ext st1")
    note f2 = enter_ClientSession_effect[OF e2]
    show ?thesis
    proof (cases r2)
      case (Some e)
      then have "st' = st2"
        using e1 e2 None assms(3) by (simp add: cs)
      then show ?thesis using f1 f2 None Some assms(1,2) by (simp add: acquired_def)
    next
      case n2: None
      obtain r3 st3 where e3: "session_initialize ext st2 = (r3, st3)"
        by (cases "session_initialize ext st2")
      note f3 = session_initialize_effect[OF e3]
      obtain r4 st4 where e4: "session_list_tools ext st3 = (r4, st4)"
        by (cases "session_list_tools ext st3")
      note f4 = session_list_tools_effect[OF e4]
      have k3: "acquired st3" using f1 f2 f3 None n2 assms(1,2) by (simp add: acquired_def)
      have k4: "acquired st4" using k3 f4 by (simp add: acquired_def)
      show ?thesis
      proof (cases r3)
        case (Some e)
        then have "st' = st3"
          using e1 e2 e3 None n2 assms(3) by (simp add: cs)
        then show ?thesis using k3 by simp
      next
        case n3: None
        show ?thesis
        proof (cases r4)
          case (Inl e)
          then have "st' = st4"
            using e1 e2 e3 e4 None n2 n3 assms(3)
            by (simp add: cs)
          then show ?thesis using k4 by simp
        next
          case (Inr tools)
          then have "st' = log (PrintTools (map name tools)) st4"
            using e1 e2 e3 e4 None n2 n3 assms(3)
            by (simp add: cs)
          then show ?thesis using k4 by (simp add: acquired_def log_def lifecycle_def)
        qed
      qed
    qed
  qed
qed

lemma cleanup_acquired:
  assumes "same_resources st1 st2" and "acquired st1"
  shows "exit_stack (cleanup st2) = [] \<and>
         lifecycle (trace (cleanup st2)) \<in>
           {[Aclose], [Enter Transport, Aclose, Exit Transport],
            [Enter Transport, Enter Session, Aclose, Exit Session, Exit Transport]}"
proof -
  have a: "exit_stack st2 = exit_stack st1" and b: "lifecycle (trace st2) = lifecycle (trace st1)"
    using assms(1) by (simp_all add: same_resources_def)
  have c: "lifecycle (trace (cleanup st2)) =
        map Enter (rev (exit_stack st1)) @ Aclose # map Exit (exit_stack st1)"
    using assms(2) a b by (simp add: cleanup_def acquired_def lifecycle_def)
  have d: "exit_stack st1 \<in> {[], [Transport], [Session, Transport]}"
    using assms(2) by (simp add: acquired_def)
  show ?thesis using c d by (auto simp add: cleanup_def)
qed

lemma stdin_enter_stdio_client: "stdin (snd (enter_stdio_client ext params st)) = stdin st"
  by (simp add: enter_stdio_client_def log_def Let_def split: prod.split option.split)

lemma stdin_enter_ClientSession: "stdin (snd (enter_ClientSession ext st)) = stdin st"
  by (simp add: enter_ClientSession_def log_def split: prod.split option.split)

lemma stdin_session_initialize: "stdin (snd (session_initialize ext st)) = stdin st"
  by (simp add: session_initialize_def log_def Let_def split: prod.split)

lemma stdin_session_list_tools: "stdin (snd (session_list_tools ext st)) = stdin st"
  using frame_session_list_tools[of st ext] by (simp add: frame_def)

lemma stdin_connect_to_server: "stdin (snd (connect_to_server ext p st)) = stdin st"
proof (cases "endswith p ''.py'' \<or> endswith p ''.js''")
  case False
  then show ?thesis by (simp add: connect_to_server_def)
next
  case True
  let ?params = "\<lparr>command = (if endswith p ''.py'' then ''python'' else ''node''),
                   args = [p], env = None\<rparr>"
  obtain r1 st1 where e1: "enter_stdio_client ext ?params st = (r1, st1)"
    by (cases "enter_stdio_client ext ?params st")
  obtain r2 st2 where e2: "enter_ClientSession ext st1 = (r2, st2)"
    by (cases "enter_ClientSession ext st1")
  obtain r3 st3 where e3: "session_initialize ext st2 = (r3, st3)"
    by (cases "session_initialize ext st2")
  obtain r4 st4 where e4: "session_list_tools ext st3 = (r4, st4)"
    by (cases "session_list_tools ext st3")
  have i1: "stdin st1 = stdin st" using stdin_enter_stdio_client[of ext ?params st] e1 by simp
  have i2: "stdin st2 = stdin st" using stdin_enter_ClientSession[of ext st1] e2 i1 by simp
  have i3: "stdin st3 = stdin st" using stdin_session_initialize[of ext st2] e3 i2 by simp
  have i4: "stdin st4 = stdin st" using stdin_session_list_tools[of ext st3] e4 i3 by simp
  show ?thesis
    using e1 e2 e3 e4 i1 i2 i3 i4
    by (simp add: connect_to_server_valid[OF True] log_def split: option.split sum.split)
qed

lemma run_result:
  assumes "2 \<le> length argv" and "run ext argv lines w = Some (r, st)"
  shows "exit_stack st = [] \<and>
         lifecycle (trace st) \<in>
           {[Aclose], [Enter Transport, Aclose, Exit Transport],
            [Enter Transport, Enter Session, Aclose, Exit Session, Exit Transport]}"
proof -
  let ?st0 = "MCPClient_init \<lparr>world = w, stdin = lines, trace = [], session = False, exit_stack = []\<rparr>"
  obtain r1 st1 where c: "connect_to_server ext (argv ! 1) ?st0 = (r1, st1)"
    by (cases "connect_to_server ext (argv ! 1) ?st0")
  have k: "acquired st1"
    by (rule connect_to_server_acquired[OF _ _ c]) (simp_all add: MCPClient_init_def lifecycle_def)
  show ?thesis
  proof (cases r1)
    case (Some e)
    then have "st = cleanup st1"
      using assms c by (simp add: run_def main_def)
    then show ?thesis using cleanup_acquired[OF same_resources_refl k] by simp
  next
    case None
    then obtain y where cl: "chat_loop ext st1 = Some y" and st: "st = cleanup (snd y)"
      using assms c by (auto simp add: run_def main_def split: option.splits)
    show ?thesis
      using cleanup_acquired[OF chat_loop_same_resources[OF cl] k] st by simp
  qed
qed

lemma run_terminates:
  assumes "2 \<le> length argv" and "list_ex (is_quit ext) lines"
  shows "run ext argv lines w \<noteq> None"
proof -
  let ?st0 = "MCPClient_init \<lparr>world = w, stdin = lines, trace = [], session = False, exit_stack = []\<rparr>"
  obtain r1 st1 where c: "connect_to_server ext (argv ! 1) ?st0 = (r1, st1)"
    by (cases "connect_to_server ext (argv ! 1) ?st0")
  show ?thesis
  proof (cases r1)
    case (Some e)
    then show ?thesis using assms(1) c by (simp add: run_def main_def)
  next
    case None
    have "stdin st1 = lines"
      using stdin_connect_to_server[of ext "argv ! 1" ?st0] c by (simp add: MCPClient_init_def)
    then have "chat_loop ext st1 \<noteq> None"
      using assms(2) by (intro chat_loop_terminates) simp
    then show ?thesis using assms(1) c None by (auto simp add: run_def main_def)
  qed
qed

lemma connect_handshake_failure:
  assumes "endswith p ''.py'' \<or> endswith p ''.js''"
    and "stdio_client ext
           \<lparr>command = (if endswith p ''.py'' then ''python'' else ''node''),
            args = [p], env = None\<rparr> (world st) = (None, w1)"
    and "ClientSession ext w1 = (None, w2)"
    and "initialize ext w2 = (Some e, w3)"
  shows "connect_to_server ext p st =
     (Some e,
      st\<lparr>world := w3, session := True, exit_stack := Session # Transport # exit_stack st,
         trace := trace st @
           [Spawn (if endswith p ''.py'' then ''python'' else ''node'') [p],
            Enter Transport, Enter Session, Initialize]\<rparr>)"
  using assms(2,3,4)
  by (simp add: connect_to_server_valid[OF assms(1)] enter_stdio_client_def
        enter_ClientSession_def session_initialize_def log_def Let_def)

lemma run_handshake_failure:
  assumes "2 \<le> length argv"
    and "endswith (argv ! 1) ''.py'' \<or> endswith (argv ! 1) ''.js''"
    and "stdio_client ext
           \<lparr>command = (if endswith (argv ! 1) ''.py'' then ''python'' else ''node''),
            args = [argv ! 1], env = None\<rparr> w = (None, w1)"
    and "ClientSession ext w1 = (None, w2)"
    and "initialize ext w2 = (Some e, w3)"
  shows "run ext argv lines w =
     Some (Some e,
       \<lparr>world = w3, stdin = lines,
        trace = [Spawn (if endswith (argv ! 1) ''.py'' then ''python'' else ''node'') [argv ! 1],
                 Enter Transport, Enter Session, Initialize,
                 Aclose, Exit Session, Exit Transport],
        session = True, exit_stack = []\<rparr>)"
proof -
  define p where "p = argv ! 1"
  let ?st0 = "MCPClient_init \<lparr>world = w, stdin = lines, trace = [], session = False, exit_stack = []\<rparr>"
  have v: "endswith p ''.py'' \<or> endswith p ''.js''"
    using assms(2) by (simp only: p_def)
  have s: "stdio_client ext
           \<lparr>command = (if endswith p ''.py'' then ''python'' else ''node''),
            args = [p], env = None\<rparr> (world ?st0) = (None, w1)"
    using assms(3) by (simp add: p_def MCPClient_init_def)
  note c = connect_handshake_failure[OF v s assms(4,5)]
  have n: "\<not> length argv < 2" using assms(1) by simp
  have "main ext argv \<lparr>world = w, stdin = lines, trace = [], session = False, exit_stack = []\<rparr> =
        Some (Some e, cleanup (?st0\<lparr>world := w3, session := True,
           exit_stack := Session # Transport # exit_stack ?st0,
           trace := trace ?st0 @
             [Spawn (if endswith p ''.py'' then ''python'' else ''node'') [p],
              Enter Transport, Enter Session, Initialize]\<rparr>))"
    unfolding main_def p_def[symmetric] using n by (simp add: c)
  then show ?thesis
    unfolding run_def p_def[symmetric] by (simp add: cleanup_def MCPClient_init_def)
qed

lemma run_usage:
  assumes "length argv < 2"
  shows "run ext argv lines w =
     Some (Some (Exn SystemExit ''1''),
       \<lparr>world = w, stdin = lines,
        trace = [Print ''Usage: python client.py <path_to_server_script>''],
        session = False, exit_stack = []\<rparr>)"
  using assms by (simp add: run_def main_def log_def)

text \<open>
  C1 as stated fails. A run without a script argument leaves through \<^verbatim>\<open>sys.exit(1)\<close>
  before the \<^verbatim>\<open>try\<close> statement: \<^verbatim>\<open>cleanup\<close> is never called. And a run whose spawn fails
  does call \<^verbatim>\<open>cleanup\<close> once, but no transport was entered, so none is closed.
\<close>

theorem run_release_counterexample:
  "run (sample_ext [] (Inr (PyDict [])) (Inr report_result)) [''client.py''] [py ''quit''] () =
     Some (Some (Exn SystemExit ''1''),
       \<lparr>world = (), stdin = [py ''quit''],
        trace = [Print ''Usage: python client.py <path_to_server_script>''],
        session = False, exit_stack = []\<rparr>) \<and>
   lifecycle [Print ''Usage: python client.py <path_to_server_script>''] = [] \<and>
   run (fixed_ext (Some (Exn OSError ''No such file or directory'')) None (Inr catalog)
          (Inr \<lparr>resp_output = []\<rparr>) (Inr (PyDict [])) (Inr report_result))
     [''client.py'', ''server.py''] [py ''quit''] () =
     Some (Some (Exn OSError ''No such file or directory''),
       \<lparr>world = (), stdin = [py ''quit''],
        trace = [Spawn ''python'' [''server.py''], Aclose],
        session = False, exit_stack = []\<rparr>)"
  by (simp add: run_def main_def log_def lifecycle_def MCPClient_init_def connect_to_server_def
        endswith_def enter_stdio_client_def fixed_ext_def cleanup_def Let_def)

text \<open>
  C1, amended. A run started without a script argument prints the usage line and leaves
  with \<^verbatim>\<open>sys.exit(1)\<close>: no resource is entered and no release is executed. For every run
  started with a script argument: if the input holds a line that reads \<^verbatim>\<open>quit\<close> once
  stripped and lower-cased, the run ends; when a run ends, \<^verbatim>\<open>exit_stack.aclose()\<close> has
  been called exactly once, the exit stack is empty, and each resource that was entered
  (the transport, then the session) has been left exactly once, in reverse order, while a
  resource that was never entered is never closed; and when \<^verbatim>\<open>initialize\<close> fails
  after the transport and the session were entered, both are closed before the failure
  leaves \<^verbatim>\<open>main\<close> as its result.
\<close>

theorem run_releases_once:
  "(length argv < 2 \<longrightarrow>
      run ext argv lines w =
        Some (Some (Exn SystemExit ''1''),
          \<lparr>world = w, stdin = lines,
           trace = [Print ''Usage: python client.py <path_to_server_script>''],
           session = False, exit_stack = []\<rparr>) \<and>
      (\<forall>r st. run ext argv lines w = Some (r, st) \<longrightarrow>
         lifecycle (trace st) = [] \<and> exit_stack st = [])) \<and>
   (2 \<le> length argv \<longrightarrow>
      (list_ex (is_quit ext) lines \<longrightarrow> run ext argv lines w \<noteq> None) \<and>
      (\<forall>r st. run ext argv lines w = Some (r, st) \<longrightarrow>
         exit_stack st = [] \<and>
         lifecycle (trace st) \<in>
           {[Aclose], [Enter Transport, Aclose, Exit Transport],
            [Enter Transport, Enter Session, Aclose, Exit Session, Exit Transport]}) \<and>
      (\<forall>e w1 w2 w3.
         (endswith (argv ! 1) ''.py'' \<or> endswith (argv ! 1) ''.js'') \<and>
         stdio_client ext
           \<lparr>command = (if endswith (argv ! 1) ''.py'' then ''python'' else ''node''),
            args = [argv ! 1], env = None\<rparr> w = (None, w1) \<and>
         ClientSession ext w1 = (None, w2) \<and> initialize ext w2 = (Some e, w3) \<longrightarrow>
         run ext argv lines w =
           Some (Some e,
             \<lparr>world = w3, stdin = lines,
              trace = [Spawn (if endswith (argv ! 1) ''.py'' then ''python'' else ''node'')
                         [argv ! 1],
                       Enter Transport, Enter Session, Initialize,
                       Aclose, Exit Session, Exit Transport],
              session = True, exit_stack = []\<rparr>)))"
proof (intro conjI allI impI)
  assume "length argv < 2"
  then show "run ext argv lines w =
        Some (Some (Exn SystemExit ''1''),
          \<lparr>world = w, stdin = lines,
           trace = [Print ''Usage: python client.py <path_to_server_script>''],
           session = False, exit_stack = []\<rparr>)"
    by (rule run_usage)
next
  fix r st assume "length argv < 2" and "run ext argv lines w = Some (r, st)"
  then show "lifecycle (trace st) = []"
    by (auto simp add: run_usage lifecycle_def)
next
  fix r st assume "length argv < 2" and "run ext argv lines w = Some (r, st)"
  then show "exit_stack st = []"
    by (auto simp add: run_usage)
next
  assume "2 \<le> length argv" and "list_ex (is_quit ext) lines"
  then show "run ext argv lines w \<noteq> None" by (rule run_terminates)
next
  fix r st assume l: "2 \<le> length argv" and a: "run ext argv lines w = Some (r, st)"
  from run_result[OF l a] show "exit_stack st = []" by (rule conjunct1)
next
  fix r st assume l: "2 \<le> length argv" and a: "run ext argv lines w = Some (r, st)"
  from run_result[OF l a] show "lifecycle (trace st) \<in>
              {[Aclose], [Enter Transport, Aclose, Exit Transport],
               [Enter Transport, Enter Session, Aclose, Exit Session, Exit Transport]}"
    by (rule conjunct2)
next
  fix e w1 w2 w3
  assume l: "2 \<le> length argv"
  assume h: "(endswith (argv ! 1) ''.py'' \<or> endswith (argv ! 1) ''.js'') \<and>
            stdio_client ext
              \<lparr>command = (if endswith (argv ! 1) ''.py'' then ''python'' else ''node''),
               args = [argv ! 1], env = None\<rparr> w = (None, w1) \<and>
            ClientSession ext w1 = (None, w2) \<and> initialize ext w2 = (Some e, w3)"
  show "run ext argv lines w =
              Some (Some e,
                \<lparr>world = w3, stdin = lines,
                 trace = [Spawn (if endswith (argv ! 1) ''.py'' then ''python'' else ''node'')
                            [argv ! 1],
                          Enter Transport, Enter Session, Initialize,
                          Aclose, Exit Session, Exit Transport],
                 session = True, exit_stack = []\<rparr>)"
    by (rule run_handshake_failure[OF l h[THEN conjunct1] h[THEN conjunct2, THEN conjunct1]
          h[THEN conjunct2, THEN conjunct2, THEN conjunct1]
          h[THEN conjunct2, THEN conjunct2, THEN conjunct2]])
qed

theorem run_releases_once_witness:
  "length [''client.py''] < 2 \<and>
   run (sample_ext [Message [OutputText ''Hello.'']] (Inr (PyDict [])) (Inr report_result))
     [''client.py''] [py ''hello'', py ''quit'' @ [0xA0]] () =
     Some (Some (Exn SystemExit ''1''),
       \<lparr>world = (), stdin = [py ''hello'', py ''quit'' @ [0xA0]],
        trace = [Print ''Usage: python client.py <path_to_server_script>''],
        session = False, exit_stack = []\<rparr>) \<and>
   2 \<le> length [''client.py'', ''server.py''] \<and>
   list_ex (is_quit (sample_ext [Message [OutputText ''Hello.'']] (Inr (PyDict [])) (Inr report_result)))
     [py ''hello'', py ''quit'' @ [0xA0]] \<and>
   run (sample_ext [Message [OutputText ''Hello.'']] (Inr (PyDict [])) (Inr report_result))
     [''client.py'', ''server.py''] [py ''hello'', py ''quit'' @ [0xA0]] () \<noteq> None \<and>
   lifecycle (trace (snd (the (run
       (sample_ext [Message [OutputText ''Hello.'']] (Inr (PyDict [])) (Inr report_result))
       [''client.py'', ''server.py''] [py ''hello'', py ''quit'' @ [0xA0]] ())))) =
     [Enter Transport, Enter Session, Aclose, Exit Session, Exit Transport] \<and>
   endswith ''server.py'' ''.py'' \<and>
   run (fixed_ext None (Some (Exn McpError ''Connection closed'')) (Inr catalog)
          (Inr \<lparr>resp_output = []\<rparr>) (Inr (PyDict [])) (Inr report_result))
     [''client.py'', ''server.py''] [py ''hello'', py ''quit'' @ [0xA0]] () =
     Some (Some (Exn McpError ''Connection closed''),
       \<lparr>world = (), stdin = [py ''hello'', py ''quit'' @ [0xA0]],
        trace = [Spawn ''python'' [''server.py''], Enter Transport, Enter Session, Initialize,
                 Aclose, Exit Session, Exit Transport],
        session = True, exit_stack = []\<rparr>)"
proof -
  let ?ext = "sample_ext [Message [OutputText ''Hello.'']] (Inr (PyDict [])) (Inr report_result)"
  let ?lines = "[py ''hello'', py ''quit'' @ [0xA0]]"
  have u: "length [''client.py''] < 2" by simp
  have h: "2 \<le> length [''client.py'', ''server.py'']" by simp
  have q: "list_ex (is_quit ?ext) ?lines"
    by (simp add: is_quit_def sample_ext_def fixed_ext_def str_defs)
  have v: "endswith ''server.py'' ''.py''" by (simp add: endswith_def)
  have x: "run ?ext [''client.py''] ?lines () =
     Some (Some (Exn SystemExit ''1''),
       \<lparr>world = (), stdin = ?lines,
        trace = [Print ''Usage: python client.py <path_to_server_script>''],
        session = False, exit_stack = []\<rparr>)"
    using run_releases_once[of "[''client.py'']" ?ext ?lines "()"] by simp
  have n: "run ?ext [''client.py'', ''server.py''] ?lines () \<noteq> None"
    using run_releases_once[of "[''client.py'', ''server.py'']" ?ext ?lines "()"] h q
    by blast
  have l: "lifecycle (trace (snd (the (run ?ext [''client.py'', ''server.py''] ?lines ())))) =
     [Enter Transport, Enter Session, Aclose, Exit Session, Exit Transport]"
    unfolding run_def main_def chat_loop_def
    apply (subst while_True.simps)
    apply (subst while_True.simps)
    apply (simp add: run_defs str_defs sample_defs turn_defs lifecycle_def)
    done
  have f: "run (fixed_ext None (Some (Exn McpError ''Connection closed'')) (Inr catalog)
          (Inr \<lparr>resp_output = []\<rparr>) (Inr (PyDict [])) (Inr report_result))
     [''client.py'', ''server.py''] ?lines () =
     Some (Some (Exn McpError ''Connection closed''),
       \<lparr>world = (), stdin = ?lines,
        trace = [Spawn ''python'' [''server.py''], Enter Transport, Enter Session, Initialize,
                 Aclose, Exit Session, Exit Transport],
        session = True, exit_stack = []\<rparr>)"
    using run_releases_once[of "[''client.py'', ''server.py'']"
        "fixed_ext None (Some (Exn McpError ''Connection closed'')) (Inr catalog)
          (Inr \<lparr>resp_output = []\<rparr>) (Inr (PyDict [])) (Inr report_result)" ?lines "()"] v
    by (simp add: fixed_ext_def)
  show ?thesis using u x h q n l v f by (intro conjI)
qed

end
